theory Spec2Isabelle
  imports Complex_Main "HOL-Library.Log_Nat" "HOL-Library.Multiset"
begin

section \<open>Errors\<close>

text \<open>
  Both variants of the boxers model (\<^verbatim>\<open>hw2/boxing/models/boxers_model.py\<close>, built on
  sqlite3, and \<^verbatim>\<open>HW3 caching/boxing/boxing/models/boxers_model.py\<close>, built on SQLAlchemy)
  signal every domain failure with Python's \<^verbatim>\<open>ValueError\<close> and tell the failures apart by
  the message only. A message is modelled by one constructor per kind of \<^verbatim>\<open>raise\<close> site,
  carrying the value the message interpolates. The other errors are the exceptions the
  interpreter raises itself (\<^verbatim>\<open>TypeError\<close>, \<^verbatim>\<open>AttributeError\<close>, \<^verbatim>\<open>NameError\<close>) and
  the errors of the database.
\<close>

datatype message =
    Invalid_weight rat
  | Invalid_height rat
  | Invalid_reach rat
  | Invalid_age int
  | Name_not_a_nonempty_string
  | Already_exists string
  | Not_found_id int
  | Not_found_name string
  | Weight_below_125 rat
  | Invalid_result string
  | Invalid_sort_by string

datatype error =
    ValueError message
  | TypeError
  | AttributeError
  | NameError
  | DatabaseError

text \<open>The error kinds of the specification, and the kind each raised error belongs to.\<close>

datatype error_kind =
    ValidationError
  | ConflictError
  | NotFoundError
  | InvariantViolationError
  | StorageError
  | ProgrammingError

fun kind_of :: "error \<Rightarrow> error_kind" where
  "kind_of (ValueError (Invalid_weight w)) = ValidationError"
| "kind_of (ValueError (Invalid_height h)) = ValidationError"
| "kind_of (ValueError (Invalid_reach r)) = ValidationError"
| "kind_of (ValueError (Invalid_age a)) = ValidationError"
| "kind_of (ValueError Name_not_a_nonempty_string) = ValidationError"
| "kind_of (ValueError (Already_exists n)) = ConflictError"
| "kind_of (ValueError (Not_found_id i)) = NotFoundError"
| "kind_of (ValueError (Not_found_name n)) = NotFoundError"
| "kind_of (ValueError (Weight_below_125 w)) = ValidationError"
| "kind_of (ValueError (Invalid_result r)) = ValidationError"
| "kind_of (ValueError (Invalid_sort_by s)) = ValidationError"
| "kind_of TypeError = ProgrammingError"
| "kind_of AttributeError = ProgrammingError"
| "kind_of NameError = ProgrammingError"
| "kind_of DatabaseError = StorageError"

section \<open>Numbers and strings of the host language\<close>

text \<open>
  A finite Python number (an \<^verbatim>\<open>int\<close> or a finite \<^verbatim>\<open>float\<close>) is a rational, and Python
  compares numbers exactly, so weights, heights and reaches are of type \<^typ>\<open>rat\<close>.

  The win percentage is computed in binary floating point (SQLite's REAL and Python's
  \<^verbatim>\<open>float\<close> are both IEEE 754 binary64). A float is modelled by the rational it denotes, and
  every arithmetic operation by the exact operation followed by \<open>binary64\<close>, the rounding to
  the nearest number with a 53 bit significand, ties to the even significand. The exponent
  range is not bounded: overflow, subnormal numbers, infinities and NaN are outside the
  model (the counters of a boxer are far from them).
\<close>

definition rne :: "rat \<Rightarrow> int" where
  "rne x = (let n = \<lfloor>x\<rfloor>; d = x - of_int n in
            if d < 1 / 2 then n else if 1 / 2 < d then n + 1
            else if even n then n else n + 1)"

text \<open>For \<open>0 < x\<close>, \<open>ilog2 x\<close> is the integer \<open>e\<close> with \<open>2 ^ e \<le> x < 2 ^ (e + 1)\<close>.\<close>

definition ilog2 :: "rat \<Rightarrow> int" where
  "ilog2 x =
     (if 1 \<le> x then bitlen \<lfloor>x\<rfloor> - 1
      else let k = bitlen \<lfloor>1 / x\<rfloor> - 1 in if 2 powi (- k) \<le> x then - k else - k - 1)"

definition binary64 :: "rat \<Rightarrow> rat" where
  "binary64 x =
     (if x = 0 then 0
      else let e = ilog2 \<bar>x\<bar> - 52 in of_int (rne (x / 2 powi e)) * 2 powi e)"

text \<open>
  Python's \<^verbatim>\<open>round(x, 1)\<close> on a float: the exact value of \<open>x\<close> is rounded to one decimal
  place, ties to the even digit, and the decimal result is converted to the nearest float.
\<close>

definition py_round1 :: "rat \<Rightarrow> rat" where
  "py_round1 x = binary64 (of_int (rne (x * 10)) / 10)"

text \<open>
  A character of a Python string is modelled by a \<^typ>\<open>char\<close>, its code point, for code
  points below 256. Python's \<^verbatim>\<open>str.strip()\<close> removes leading and trailing whitespace; of
  the code points below 256 Python counts as whitespace 9 to 13, 28 to 32, 133 and 160.
\<close>

definition is_space :: "char \<Rightarrow> bool" where
  "is_space c =
     (let n = (of_char c :: nat)
      in (9 \<le> n \<and> n \<le> 13) \<or> (28 \<le> n \<and> n \<le> 32) \<or> n = 133 \<or> n = 160)"

definition strip :: "string \<Rightarrow> string" where
  "strip s = rev (dropWhile is_space (rev (dropWhile is_space s)))"

section \<open>Weight classes\<close>

text \<open>
  \<^verbatim>\<open>get_weight_class(weight)\<close> of the sqlite variant: an \<^verbatim>\<open>if\<close>/\<^verbatim>\<open>elif\<close> chain from the
  highest bound down; the \<^verbatim>\<open>else\<close> branch raises.
\<close>

definition get_weight_class :: "rat \<Rightarrow> error + string" where
  "get_weight_class weight =
     (if weight \<ge> 203 then Inr ''HEAVYWEIGHT''
      else if weight \<ge> 166 then Inr ''MIDDLEWEIGHT''
      else if weight \<ge> 133 then Inr ''LIGHTWEIGHT''
      else if weight \<ge> 125 then Inr ''FEATHERWEIGHT''
      else Inl (ValueError (Weight_below_125 weight)))"

text \<open>\<^verbatim>\<open>Boxers.get_weight_class(cls, weight)\<close> of the SQLAlchemy variant: the same chain.\<close>

definition Boxers_get_weight_class :: "rat \<Rightarrow> error + string" where
  "Boxers_get_weight_class weight =
     (if weight \<ge> 203 then Inr ''HEAVYWEIGHT''
      else if weight \<ge> 166 then Inr ''MIDDLEWEIGHT''
      else if weight \<ge> 133 then Inr ''LIGHTWEIGHT''
      else if weight \<ge> 125 then Inr ''FEATHERWEIGHT''
      else Inl (ValueError (Weight_below_125 weight)))"

section \<open>The sqlite variant (hw2)\<close>

subsection \<open>The table and the connection\<close>

text \<open>
  The table \<^verbatim>\<open>boxers\<close> is a list of rows in the order a scan returns them. The state of the
  store is the table together with the calls the code has made on the connection so far,
  so that a theorem can say that an operation did not touch the store.
\<close>

record boxer_row =
  row_id :: int
  row_name :: string
  row_weight :: rat
  row_height :: rat
  row_reach :: rat
  row_age :: int
  row_fights :: int
  row_wins :: int

datatype statement =
    Select_1_where_name string
  | Insert_boxer string rat rat rat int
  | Select_id_where_id int
  | Delete_where_id int
  | Select_leaderboard string
  | Select_boxer_where_id int
  | Select_boxer_where_name string
  | Update_fights_wins_where_id int
  | Update_fights_where_id int

datatype db_call = Connect | Execute statement | Commit

record database =
  boxers :: "boxer_row list"
  calls :: "db_call list"

definition connect :: "database \<Rightarrow> database" where
  "connect db = db\<lparr>calls := calls db @ [Connect]\<rparr>"

definition commit :: "database \<Rightarrow> database" where
  "commit db = db\<lparr>calls := calls db @ [Commit]\<rparr>"

text \<open>
  Modelled from the spec: the schema of the table is not among the sources. The id of a new
  row is assigned by the store and is not the id of any other row; \<open>fights\<close> and \<open>wins\<close>
  start at 0.
\<close>

definition new_id :: "boxer_row list \<Rightarrow> int" where
  "new_id rs = fold max (map row_id rs) 0 + 1"

text \<open>What a statement does to the table. A \<^verbatim>\<open>SELECT\<close> leaves it as it is.\<close>

fun run_statement :: "statement \<Rightarrow> boxer_row list \<Rightarrow> boxer_row list" where
  "run_statement (Insert_boxer name weight height reach age) rs =
     rs @ [\<lparr>row_id = new_id rs, row_name = name, row_weight = weight, row_height = height,
            row_reach = reach, row_age = age, row_fights = 0, row_wins = 0\<rparr>]"
| "run_statement (Delete_where_id boxer_id) rs = filter (\<lambda>r. row_id r \<noteq> boxer_id) rs"
| "run_statement (Update_fights_wins_where_id boxer_id) rs =
     map (\<lambda>r. if row_id r = boxer_id
              then r\<lparr>row_fights := row_fights r + 1, row_wins := row_wins r + 1\<rparr> else r) rs"
| "run_statement (Update_fights_where_id boxer_id) rs =
     map (\<lambda>r. if row_id r = boxer_id then r\<lparr>row_fights := row_fights r + 1\<rparr> else r) rs"
| "run_statement (Select_1_where_name name) rs = rs"
| "run_statement (Select_id_where_id boxer_id) rs = rs"
| "run_statement (Select_leaderboard order_by) rs = rs"
| "run_statement (Select_boxer_where_id boxer_id) rs = rs"
| "run_statement (Select_boxer_where_name name) rs = rs"

definition execute :: "statement \<Rightarrow> database \<Rightarrow> database" where
  "execute st db = \<lparr>boxers = run_statement st (boxers db), calls = calls db @ [Execute st]\<rparr>"

text \<open>A statement that the store refuses: the call is made, the table stays as it is.\<close>

definition execute_refused :: "statement \<Rightarrow> database \<Rightarrow> database" where
  "execute_refused st db = db\<lparr>calls := calls db @ [Execute st]\<rparr>"

subsection \<open>\<^verbatim>\<open>create_boxer\<close>\<close>

text \<open>
  The answer of the store to the \<^verbatim>\<open>INSERT\<close> is a parameter of the model: the store is an
  external collaborator, and the code has a handler for its \<^verbatim>\<open>sqlite3.IntegrityError\<close>
  (the name was taken between the check and the insert) besides the one that re-raises any
  other \<^verbatim>\<open>sqlite3.Error\<close>.
\<close>

datatype insert_outcome = Inserted | Raises_IntegrityError | Raises_other_sqlite3_Error

definition create_boxer ::
  "insert_outcome \<Rightarrow> database \<Rightarrow> string \<Rightarrow> rat \<Rightarrow> rat \<Rightarrow> rat \<Rightarrow> int \<Rightarrow> (error + unit) \<times> database"
where
  "create_boxer ins db name weight height reach age =
     (if weight < 125 then (Inl (ValueError (Invalid_weight weight)), db)
      else if height \<le> 0 then (Inl (ValueError (Invalid_height height)), db)
      else if reach \<le> 0 then (Inl (ValueError (Invalid_reach reach)), db)
      else if \<not> (18 \<le> age \<and> age \<le> 40) then (Inl (ValueError (Invalid_age age)), db)
      else
        let db1 = execute (Select_1_where_name name) (connect db) in
        if find (\<lambda>r. row_name r = name) (boxers db1) \<noteq> None
        then (Inl (ValueError (Already_exists name)), db1)
        else
          (case ins of
             Inserted \<Rightarrow>
               (Inr (), commit (execute (Insert_boxer name weight height reach age) db1))
           | Raises_IntegrityError \<Rightarrow>
               (Inl (ValueError (Already_exists name)),
                execute_refused (Insert_boxer name weight height reach age) db1)
           | Raises_other_sqlite3_Error \<Rightarrow>
               (Inl DatabaseError,
                execute_refused (Insert_boxer name weight height reach age) db1)))"

subsection \<open>\<^verbatim>\<open>delete_boxer\<close>\<close>

definition delete_boxer :: "database \<Rightarrow> int \<Rightarrow> (error + unit) \<times> database" where
  "delete_boxer db boxer_id =
     (let db1 = execute (Select_id_where_id boxer_id) (connect db) in
      if find (\<lambda>r. row_id r = boxer_id) (boxers db1) = None
      then (Inl (ValueError (Not_found_id boxer_id)), db1)
      else (Inr (), commit (execute (Delete_where_id boxer_id) db1)))"

subsection \<open>\<^verbatim>\<open>get_boxer_by_id\<close> and \<^verbatim>\<open>get_boxer_by_name\<close>\<close>

text \<open>
  The dataclass \<^verbatim>\<open>Boxer\<close>; its \<^verbatim>\<open>__post_init__\<close> computes the weight class, and so raises
  for a weight below 125.
\<close>

record Boxer =
  Boxer_id :: int
  Boxer_name :: string
  Boxer_weight :: rat
  Boxer_height :: rat
  Boxer_reach :: rat
  Boxer_age :: int
  Boxer_weight_class :: string

definition Boxer_of_row :: "boxer_row \<Rightarrow> error + Boxer" where
  "Boxer_of_row r =
     (case get_weight_class (row_weight r) of
        Inl e \<Rightarrow> Inl e
      | Inr wc \<Rightarrow>
          Inr \<lparr>Boxer_id = row_id r, Boxer_name = row_name r, Boxer_weight = row_weight r,
               Boxer_height = row_height r, Boxer_reach = row_reach r, Boxer_age = row_age r,
               Boxer_weight_class = wc\<rparr>)"

definition get_boxer_by_id :: "database \<Rightarrow> int \<Rightarrow> (error + Boxer) \<times> database" where
  "get_boxer_by_id db boxer_id =
     (let db1 = execute (Select_boxer_where_id boxer_id) (connect db) in
      case find (\<lambda>r. row_id r = boxer_id) (boxers db1) of
        Some row \<Rightarrow> (Boxer_of_row row, db1)
      | None \<Rightarrow> (Inl (ValueError (Not_found_id boxer_id)), db1))"

definition get_boxer_by_name :: "database \<Rightarrow> string \<Rightarrow> (error + Boxer) \<times> database" where
  "get_boxer_by_name db boxer_name =
     (let db1 = execute (Select_boxer_where_name boxer_name) (connect db) in
      case find (\<lambda>r. row_name r = boxer_name) (boxers db1) of
        Some row \<Rightarrow> (Boxer_of_row row, db1)
      | None \<Rightarrow> (Inl (ValueError (Not_found_name boxer_name)), db1))"

subsection \<open>\<^verbatim>\<open>update_boxer_stats\<close>\<close>

definition update_boxer_stats :: "database \<Rightarrow> int \<Rightarrow> string \<Rightarrow> (error + unit) \<times> database" where
  "update_boxer_stats db boxer_id result =
     (if result \<notin> {''win'', ''loss''} then (Inl (ValueError (Invalid_result result)), db)
      else
        let db1 = execute (Select_id_where_id boxer_id) (connect db) in
        if find (\<lambda>r. row_id r = boxer_id) (boxers db1) = None
        then (Inl (ValueError (Not_found_id boxer_id)), db1)
        else if result = ''win''
        then (Inr (), commit (execute (Update_fights_wins_where_id boxer_id) db1))
        else (Inr (), commit (execute (Update_fights_where_id boxer_id) db1)))"

subsection \<open>\<^verbatim>\<open>get_leaderboard\<close>\<close>

text \<open>
  The query computes \<^verbatim>\<open>wins * 1.0 / fights\<close> in SQLite: both counters are converted to REAL
  (the product with 1.0 is exact) and divided. The rows with \<^verbatim>\<open>fights > 0\<close> are returned in
  descending order of the chosen column. SQL leaves the order of rows with equal keys open;
  the model keeps them in table order, and no theorem below depends on that choice.
\<close>

definition sql_win_pct :: "boxer_row \<Rightarrow> rat" where
  "sql_win_pct r = binary64 (binary64 (of_int (row_wins r)) / binary64 (of_int (row_fights r)))"

definition select_leaderboard :: "string \<Rightarrow> boxer_row list \<Rightarrow> (boxer_row \<times> rat) list" where
  "select_leaderboard order_by rs =
     (let hits = map (\<lambda>r. (r, sql_win_pct r)) (filter (\<lambda>r. row_fights r > 0) rs) in
      if order_by = ''win_pct'' then sort_key (\<lambda>(r, win_pct). - win_pct) hits
      else sort_key (\<lambda>(r, win_pct). - row_wins r) hits)"

record leaderboard_entry =
  entry_id :: int
  entry_name :: string
  entry_weight :: rat
  entry_height :: rat
  entry_reach :: rat
  entry_age :: int
  entry_weight_class :: string
  entry_fights :: int
  entry_wins :: int
  entry_win_pct :: rat

text \<open>The loop over the fetched rows; \<^verbatim>\<open>get_weight_class\<close> may raise in it.\<close>

fun leaderboard_of_rows :: "(boxer_row \<times> rat) list \<Rightarrow> error + leaderboard_entry list" where
  "leaderboard_of_rows [] = Inr []"
| "leaderboard_of_rows ((r, win_pct) # rest) =
     (case get_weight_class (row_weight r) of
        Inl e \<Rightarrow> Inl e
      | Inr wc \<Rightarrow>
          (case leaderboard_of_rows rest of
             Inl e \<Rightarrow> Inl e
           | Inr leaderboard \<Rightarrow>
               Inr (\<lparr>entry_id = row_id r, entry_name = row_name r, entry_weight = row_weight r,
                     entry_height = row_height r, entry_reach = row_reach r,
                     entry_age = row_age r, entry_weight_class = wc,
                     entry_fights = row_fights r, entry_wins = row_wins r,
                     entry_win_pct = py_round1 (binary64 (win_pct * 100))\<rparr> # leaderboard)))"

definition get_leaderboard ::
  "database \<Rightarrow> string \<Rightarrow> (error + leaderboard_entry list) \<times> database"
where
  "get_leaderboard db sort_by =
     (if sort_by = ''win_pct'' \<or> sort_by = ''wins'' then
        let db1 = execute (Select_leaderboard sort_by) (connect db) in
        (leaderboard_of_rows (select_leaderboard sort_by (boxers db1)), db1)
      else (Inl (ValueError (Invalid_sort_by sort_by)), db))"

section \<open>The SQLAlchemy variant (HW3)\<close>

text \<open>
  The class \<^verbatim>\<open>Boxers\<close> maps the table; an object has the columns the class declares: id,
  name, weight, height, reach, age and wins. The table is a list of such objects in the
  order a query returns them.

  The methods are modelled as they run, statement by statement. Three of them refer to
  names that nothing defines: the attribute \<^verbatim>\<open>fights\<close>, which the class does not declare
  (reading it on an object or on the class raises \<^verbatim>\<open>AttributeError\<close>), and the class
  \<^verbatim>\<open>SQLAlchemyError\<close>, which the module uses in its handlers without importing it (so an
  exception that reaches such a handler is replaced by a \<^verbatim>\<open>NameError\<close>).
\<close>

record Boxers =
  Boxers_id :: int
  Boxers_name :: string
  Boxers_weight :: rat
  Boxers_height :: rat
  Boxers_reach :: rat
  Boxers_age :: int
  Boxers_wins :: int

subsection \<open>\<^verbatim>\<open>Boxers.__init__\<close> and \<^verbatim>\<open>Boxers.create_boxer\<close>\<close>

text \<open>
  The constructor checks the four numbers and then tests \<^verbatim>\<open>self.name\<close>, the attribute of
  the object under construction, before anything has been assigned to it; only in the
  \<^verbatim>\<open>else\<close> branch does it assign the argument. What the attribute holds at that moment is
  decided by the library, so it is the parameter \<open>self_name\<close> (\<open>None\<close> for Python's
  \<^verbatim>\<open>None\<close>). On success the model returns the name assigned.
\<close>

definition Boxers_init ::
  "string option \<Rightarrow> string \<Rightarrow> rat \<Rightarrow> rat \<Rightarrow> rat \<Rightarrow> int \<Rightarrow> error + string"
where
  "Boxers_init self_name name weight height reach age =
     (if weight < 125 then Inl (ValueError (Invalid_weight weight))
      else if height \<le> 0 then Inl (ValueError (Invalid_height height))
      else if reach \<le> 0 then Inl (ValueError (Invalid_reach reach))
      else if \<not> (18 \<le> age \<and> age \<le> 40) then Inl (ValueError (Invalid_age age))
      else if self_name = None \<or> self_name = Some [] then
        Inl (ValueError Name_not_a_nonempty_string)
      else Inr name)"

text \<open>
  \<^verbatim>\<open>create_boxer\<close> constructs the object with the stripped name and re-raises the
  constructor's \<^verbatim>\<open>ValueError\<close>. Its next statement, \<^verbatim>\<open>boxer.__init__()\<close>, calls the
  constructor again without the five required arguments, which is a \<^verbatim>\<open>TypeError\<close> that
  the surrounding handler (for \<^verbatim>\<open>ValueError\<close>) does not catch. The rest of the function
  (the lookup of the stripped name, the insert, the handlers of the commit) is never
  reached and has no counterpart here.
\<close>

definition Boxers_create_boxer ::
  "string option \<Rightarrow> string \<Rightarrow> rat \<Rightarrow> rat \<Rightarrow> rat \<Rightarrow> int \<Rightarrow> error + unit"
where
  "Boxers_create_boxer self_name name weight height reach age =
     (case Boxers_init self_name (strip name) weight height reach age of
        Inl e \<Rightarrow> Inl e
      | Inr assigned \<Rightarrow> Inl TypeError)"

subsection \<open>\<^verbatim>\<open>Boxers.get_boxer_by_id\<close> and \<^verbatim>\<open>Boxers.get_boxer_by_name\<close>\<close>

text \<open>
  Both lookups raise their \<^verbatim>\<open>ValueError\<close> inside a \<^verbatim>\<open>try\<close> whose only handler is
  \<^verbatim>\<open>except SQLAlchemyError\<close>. To match the exception against the handler Python evaluates
  the name \<^verbatim>\<open>SQLAlchemyError\<close>, which is not defined, so what leaves the method on a miss
  is a \<^verbatim>\<open>NameError\<close>. On a hit nothing is raised and the object is returned.
\<close>

definition Boxers_get_boxer_by_id :: "Boxers list \<Rightarrow> int \<Rightarrow> error + Boxers" where
  "Boxers_get_boxer_by_id table boxer_id =
     (case find (\<lambda>b. Boxers_id b = boxer_id) table of
        None \<Rightarrow> Inl NameError
      | Some boxer \<Rightarrow> Inr boxer)"

definition Boxers_get_boxer_by_name :: "Boxers list \<Rightarrow> string \<Rightarrow> error + Boxers" where
  "Boxers_get_boxer_by_name table name =
     (case find (\<lambda>b. Boxers_name b = strip name) table of
        None \<Rightarrow> Inl NameError
      | Some boxer \<Rightarrow> Inr boxer)"

subsection \<open>\<^verbatim>\<open>Boxers.update_stats\<close>\<close>

text \<open>
  The method works on the object \<^verbatim>\<open>self\<close>; the state is the object and the number of
  commits of the session so far. After the test of the result the first statement is
  \<^verbatim>\<open>self.fights += 1\<close>, which reads the attribute \<^verbatim>\<open>fights\<close> and raises
  \<^verbatim>\<open>AttributeError\<close> before anything is written. The increment of the wins, the guard on
  \<open>wins > fights\<close> and the commit are never reached and have no counterpart here.
\<close>

definition Boxers_update_stats ::
  "Boxers \<times> nat \<Rightarrow> string \<Rightarrow> (error + unit) \<times> (Boxers \<times> nat)"
where
  "Boxers_update_stats s result =
     (if result \<notin> {''win'', ''loss''} then (Inl (ValueError (Invalid_result result)), s)
      else (Inl AttributeError, s))"

subsection \<open>\<^verbatim>\<open>Boxers.get_leaderboard\<close>\<close>

text \<open>
  After the test of the sort key the first statement is the query with the filter
  \<^verbatim>\<open>Boxers.fights > 0\<close>, which reads the attribute \<^verbatim>\<open>fights\<close> of the class and raises
  \<^verbatim>\<open>AttributeError\<close>, whatever the table holds. The list of entries and the sort are
  never reached and have no counterpart here.
\<close>

definition Boxers_get_leaderboard :: "Boxers list \<Rightarrow> string \<Rightarrow> error + leaderboard_entry list" where
  "Boxers_get_leaderboard table sort_by =
     (if sort_by \<notin> {''wins'', ''win_pct''} then Inl (ValueError (Invalid_sort_by sort_by))
      else Inl AttributeError)"

text \<open>
  The local function \<^verbatim>\<open>compute_win_pct(b)\<close> reads the attributes \<^verbatim>\<open>wins\<close> and \<^verbatim>\<open>fights\<close>
  of its argument; their values are the parameters here. \<^verbatim>\<open>b.wins / b.fights\<close> is Python's
  division of two integers, the float nearest to the exact quotient.
\<close>

definition compute_win_pct :: "int \<Rightarrow> int \<Rightarrow> rat" where
  "compute_win_pct wins fights =
     (if fights > 0
      then py_round1 (binary64 (binary64 (of_int wins / of_int fights) * 100))
      else 0)"

section \<open>Sequences of calls and reachable stores\<close>

text \<open>A sequence of \<^verbatim>\<open>update_boxer_stats\<close> calls, each on the store the previous one left.\<close>

fun record_results :: "database \<Rightarrow> (int \<times> string) list \<Rightarrow> database" where
  "record_results db [] = db"
| "record_results db ((boxer_id, result) # cs) =
     record_results (snd (update_boxer_stats db boxer_id result)) cs"

text \<open>The same for \<^verbatim>\<open>Boxers.update_stats\<close> on one object.\<close>

fun Boxers_record_results :: "Boxers \<times> nat \<Rightarrow> string list \<Rightarrow> Boxers \<times> nat" where
  "Boxers_record_results s [] = s"
| "Boxers_record_results s (result # rs) =
     Boxers_record_results (snd (Boxers_update_stats s result)) rs"

text \<open>
  The stores that the operations of the sqlite variant can produce from the empty table:
  the stored sets of boxers.
\<close>

definition empty_database :: database where
  "empty_database = \<lparr>boxers = [], calls = []\<rparr>"

inductive stored :: "database \<Rightarrow> bool" where
  stored_empty: "stored empty_database"
| stored_create: "stored db \<Longrightarrow> stored (snd (create_boxer ins db name weight height reach age))"
| stored_delete: "stored db \<Longrightarrow> stored (snd (delete_boxer db boxer_id))"
| stored_update: "stored db \<Longrightarrow> stored (snd (update_boxer_stats db boxer_id result))"
| stored_by_id: "stored db \<Longrightarrow> stored (snd (get_boxer_by_id db boxer_id))"
| stored_by_name: "stored db \<Longrightarrow> stored (snd (get_boxer_by_name db boxer_name))"
| stored_leaderboard: "stored db \<Longrightarrow> stored (snd (get_leaderboard db sort_by))"

section \<open>Auxiliary definitions for the statements\<close>

text \<open>What one \<^verbatim>\<open>update_boxer_stats\<close> call is expected to do to a row of the table.\<close>

definition bump :: "int \<Rightarrow> string \<Rightarrow> boxer_row \<Rightarrow> boxer_row" where
  "bump boxer_id result r =
     (if row_id r = boxer_id
      then r\<lparr>row_fights := row_fights r + 1,
              row_wins := row_wins r + (if result = ''win'' then 1 else 0)\<rparr>
      else r)"

text \<open>The table row a leaderboard entry was made from.\<close>

definition row_of_entry :: "leaderboard_entry \<Rightarrow> boxer_row" where
  "row_of_entry e =
     \<lparr>row_id = entry_id e, row_name = entry_name e, row_weight = entry_weight e,
      row_height = entry_height e, row_reach = entry_reach e, row_age = entry_age e,
      row_fights = entry_fights e, row_wins = entry_wins e\<rparr>"

text \<open>A small store and a small object, for the concrete instances below.\<close>

definition example_row :: boxer_row where
  "example_row = \<lparr>row_id = 1, row_name = ''Ali'', row_weight = 150, row_height = 70,
     row_reach = 41 / 2, row_age = 25, row_fights = 0, row_wins = 0\<rparr>"

definition example_database :: database where
  "example_database = \<lparr>boxers = [example_row], calls = []\<rparr>"

definition example_Boxers :: Boxers where
  "example_Boxers = \<lparr>Boxers_id = 1, Boxers_name = ''Ali'', Boxers_weight = 150,
     Boxers_height = 70, Boxers_reach = 41 / 2, Boxers_age = 25, Boxers_wins = 0\<rparr>"

text \<open>
  The entry the loop of \<^verbatim>\<open>get_leaderboard\<close> builds from a fetched row when the weight
  class is defined.
\<close>

definition entry_of_row :: "boxer_row \<times> rat \<Rightarrow> leaderboard_entry" where
  "entry_of_row h =
     \<lparr>entry_id = row_id (fst h), entry_name = row_name (fst h),
      entry_weight = row_weight (fst h), entry_height = row_height (fst h),
      entry_reach = row_reach (fst h), entry_age = row_age (fst h),
      entry_weight_class = projr (get_weight_class (row_weight (fst h))),
      entry_fights = row_fights (fst h), entry_wins = row_wins (fst h),
      entry_win_pct = py_round1 (binary64 (snd h * 100))\<rparr>"

text \<open>
  Rounding to one decimal place as the specification words it, on exact numbers: with ties
  to the even digit (as Python rounds), and with ties upwards.
\<close>

definition spec_round_half_even :: "rat \<Rightarrow> rat" where
  "spec_round_half_even x = of_int (rne (x * 10)) / 10"

definition spec_round_half_up :: "rat \<Rightarrow> rat" where
  "spec_round_half_up x = of_int \<lfloor>x * 10 + 1 / 2\<rfloor> / 10"

text \<open>
  Stores built with the operations: three boxers of whom two have fought, and one boxer
  with 23 wins in 80 fights.
\<close>

definition example_store :: database where
  "example_store =
     record_results
       (snd (create_boxer Inserted
         (snd (create_boxer Inserted
           (snd (create_boxer Inserted empty_database ''Boxer A'' 150 70 (41 / 2) 19))
           ''Boxer B'' 170 72 24 22))
         ''Boxer C'' 160 68 18 34))
       [(1, ''win''), (2, ''win''), (2, ''win''), (1, ''loss'')]"

definition tie_store :: database where
  "tie_store =
     record_results (snd (create_boxer Inserted empty_database ''Boxer T'' 150 70 (41 / 2) 25))
       (replicate 23 (1, ''win'') @ replicate 57 (1, ''loss''))"

definition tie_entry :: leaderboard_entry where
  "tie_entry = \<lparr>entry_id = 1, entry_name = ''Boxer T'', entry_weight = 150, entry_height = 70,
     entry_reach = 41 / 2, entry_age = 25, entry_weight_class = ''LIGHTWEIGHT'',
     entry_fights = 80, entry_wins = 23, entry_win_pct = binary64 (287 / 10)\<rparr>"

definition ali_store :: database where
  "ali_store = snd (create_boxer Inserted empty_database ''Ali'' 150 70 (41 / 2) 25)"

text \<open>The constraints of the data model on one row.\<close>

definition valid_row :: "boxer_row \<Rightarrow> bool" where
  "valid_row r \<longleftrightarrow>
     125 \<le> row_weight r \<and> 0 < row_height r \<and> 0 < row_reach r \<and>
     18 \<le> row_age r \<and> row_age r \<le> 40 \<and> 0 \<le> row_wins r \<and> row_wins r \<le> row_fights r"

section \<open>Weight classes: the boundary table\<close>

text \<open>
  C1. For every weight \<open>w\<close>, both \<^verbatim>\<open>get_weight_class\<close> functions return the class of the
  boundary table: HEAVYWEIGHT from 203 up, MIDDLEWEIGHT on [166, 203), LIGHTWEIGHT on
  [133, 166), FEATHERWEIGHT on [125, 133), and below 125 they raise the ValueError that
  counts as a ValidationError. Every lower bound is inclusive.
\<close>

theorem get_weight_class_table:
  "(203 \<le> w \<longrightarrow> get_weight_class w = Inr ''HEAVYWEIGHT'') \<and>
   (166 \<le> w \<and> w < 203 \<longrightarrow> get_weight_class w = Inr ''MIDDLEWEIGHT'') \<and>
   (133 \<le> w \<and> w < 166 \<longrightarrow> get_weight_class w = Inr ''LIGHTWEIGHT'') \<and>
   (125 \<le> w \<and> w < 133 \<longrightarrow> get_weight_class w = Inr ''FEATHERWEIGHT'') \<and>
   (w < 125 \<longrightarrow> get_weight_class w = Inl (ValueError (Weight_below_125 w)) \<and>
      kind_of (ValueError (Weight_below_125 w)) = ValidationError) \<and>
   Boxers_get_weight_class w = get_weight_class w"
  by (simp add: get_weight_class_def Boxers_get_weight_class_def)

theorem get_weight_class_table_witness:
  "get_weight_class 124 = Inl (ValueError (Weight_below_125 124)) \<and>
   get_weight_class 125 = Inr ''FEATHERWEIGHT'' \<and>
   get_weight_class (13299 / 100) = Inr ''FEATHERWEIGHT'' \<and>
   get_weight_class 133 = Inr ''LIGHTWEIGHT'' \<and>
   get_weight_class (16599 / 100) = Inr ''LIGHTWEIGHT'' \<and>
   get_weight_class 166 = Inr ''MIDDLEWEIGHT'' \<and>
   get_weight_class (20299 / 100) = Inr ''MIDDLEWEIGHT'' \<and>
   get_weight_class 203 = Inr ''HEAVYWEIGHT'' \<and>
   Boxers_get_weight_class 203 = Inr ''HEAVYWEIGHT''"
  using get_weight_class_table [of 124] get_weight_class_table [of 125]
    get_weight_class_table [of "13299 / 100"] get_weight_class_table [of 133]
    get_weight_class_table [of "16599 / 100"] get_weight_class_table [of 166]
    get_weight_class_table [of "20299 / 100"] get_weight_class_table [of 203]
  by simp

section \<open>Properties of the rounding functions\<close>

lemma rne_cases: "rne x = \<lfloor>x\<rfloor> \<or> rne x = \<lfloor>x\<rfloor> + 1"
  by (simp add: rne_def Let_def)

lemma rne_of_int: "rne (of_int n) = n"
  by (simp add: rne_def)

lemma rne_mono:
  assumes "x \<le> y"
  shows "rne x \<le> rne y"
proof (cases "\<lfloor>x\<rfloor> = \<lfloor>y\<rfloor>")
  case True
  with assms show ?thesis
    by (auto simp: rne_def Let_def)
next
  case False
  with assms have "\<lfloor>x\<rfloor> + 1 \<le> \<lfloor>y\<rfloor>"
    using floor_mono [of x y] by linarith
  then show ?thesis
    using rne_cases [of x] rne_cases [of y] by linarith
qed

lemma two_powi_pos: "0 < (2::rat) powi e"
  by (simp add: power_int_def)

lemma two_powi_mono: "a \<le> b \<Longrightarrow> (2::rat) powi a \<le> 2 powi b"
  by (rule power_int_increasing) simp_all

lemma floor_bitlen_bounds:
  assumes "1 \<le> (y::rat)"
  shows "0 \<le> bitlen \<lfloor>y\<rfloor> - 1"
    and "2 powi (bitlen \<lfloor>y\<rfloor> - 1) \<le> y"
    and "y < 2 powi (bitlen \<lfloor>y\<rfloor> - 1 + 1)"
proof -
  let ?n = "\<lfloor>y\<rfloor>"
  let ?b = "bitlen ?n"
  from assms have n: "0 < ?n" by simp
  have lo: "2 ^ nat (?b - 1) \<le> ?n" and hi: "?n < 2 ^ nat ?b"
    using bitlen_bounds [OF n] by simp_all
  have "?b \<noteq> 0" using n by (simp add: bitlen_eq_zero_iff)
  with bitlen_nonneg [of ?n] show b: "0 \<le> ?b - 1" by linarith
  have "(2::rat) powi (?b - 1) = of_int (2 ^ nat (?b - 1))"
    using b by (simp add: power_int_def)
  also have "\<dots> \<le> of_int ?n" using lo by (simp only: of_int_le_iff)
  also have "\<dots> \<le> y" by simp
  finally show "2 powi (?b - 1) \<le> y" .
  have "?n + 1 \<le> 2 ^ nat ?b" using hi by simp
  then have "(of_int (?n + 1) :: rat) \<le> of_int (2 ^ nat ?b)" by (simp only: of_int_le_iff)
  moreover have "y < of_int (?n + 1)" by linarith
  moreover have "(2::rat) powi (?b - 1 + 1) = of_int (2 ^ nat ?b)"
    using b by (simp add: power_int_def)
  ultimately show "y < 2 powi (?b - 1 + 1)" by simp
qed

lemma ilog2_bounds:
  assumes "0 < x"
  shows "2 powi (ilog2 x) \<le> x \<and> x < 2 powi (ilog2 x + 1)"
proof (cases "1 \<le> x")
  case True
  then show ?thesis
    using floor_bitlen_bounds [of x] by (simp add: ilog2_def)
next
  case False
  define k where "k = bitlen \<lfloor>1 / x\<rfloor> - 1"
  from False assms have y: "1 \<le> 1 / x" by simp
  have k0: "0 \<le> k" and lo: "2 powi k \<le> 1 / x" and hi: "1 / x < 2 powi (k + 1)"
    using floor_bitlen_bounds [OF y] by (simp_all add: k_def)
  have up: "x \<le> 2 powi (- k)"
  proof -
    have "x * 2 powi k \<le> 1"
      using lo assms by (simp add: field_simps)
    then show ?thesis
      using two_powi_pos [of k] by (simp add: power_int_minus field_simps)
  qed
  have down: "2 powi (- k - 1) < x"
  proof -
    have "1 < x * 2 powi (k + 1)"
      using hi assms by (simp add: field_simps)
    then have "1 / 2 powi (k + 1) < x"
      using two_powi_pos [of "k + 1"] by (simp add: pos_divide_less_eq)
    moreover have "(2::rat) powi (- k - 1) = 1 / 2 powi (k + 1)"
      using power_int_minus_divide [of "2::rat" "k + 1"] by simp
    ultimately show ?thesis by simp
  qed
  have il: "ilog2 x = (if 2 powi (- k) \<le> x then - k else - k - 1)"
    using False by (simp add: ilog2_def Let_def k_def)
  show ?thesis
  proof (cases "2 powi (- k) \<le> x")
    case True
    have "(2::rat) powi (- k) < 2 powi (- k + 1)"
      by (rule power_int_strict_increasing) simp_all
    with up have "x < 2 powi (- k + 1)" by linarith
    with True il show ?thesis by simp
  next
    case F2: False
    then have "x < 2 powi (- k - 1 + 1)" by simp
    moreover have "2 powi (- k - 1) \<le> x" using down by simp
    ultimately show ?thesis using F2 il by simp
  qed
qed

lemma ilog2_mono:
  assumes "0 < x" "x \<le> y"
  shows "ilog2 x \<le> ilog2 y"
proof (rule ccontr)
  assume "\<not> ilog2 x \<le> ilog2 y"
  then have "ilog2 y + 1 \<le> ilog2 x" by simp
  then have "(2::rat) powi (ilog2 y + 1) \<le> 2 powi (ilog2 x)" by (rule two_powi_mono)
  moreover have "y < 2 powi (ilog2 y + 1)" using ilog2_bounds [of y] assms by simp
  moreover have "2 powi (ilog2 x) \<le> x" using ilog2_bounds [of x] assms by simp
  ultimately show False using assms by linarith
qed

lemma rne_minus: "rne (- x) = - rne x"
proof (cases "x \<in> \<int>")
  case True
  then obtain n where "x = of_int n" by (rule Ints_cases)
  then show ?thesis
    by (simp add: rne_of_int flip: of_int_minus)
next
  case False
  then have ne: "x \<noteq> of_int \<lfloor>x\<rfloor>" by (metis Ints_of_int)
  then have c: "\<lceil>x\<rceil> = \<lfloor>x\<rfloor> + 1"
    by (simp add: ceiling_altdef)
  have f: "\<lfloor>- x\<rfloor> = - \<lfloor>x\<rfloor> - 1"
    using c by (simp add: floor_minus)
  have lt: "of_int \<lfloor>x\<rfloor> < x"
    using of_int_floor_le [of x] ne [symmetric] by (rule le_neq_trans)
  show ?thesis
    using lt by (auto simp: rne_def Let_def f)
qed

lemma binary64_pos_bounds:
  assumes "0 < x"
  shows "2 powi (ilog2 x) \<le> binary64 x \<and> binary64 x \<le> 2 powi (ilog2 x + 1)"
proof -
  define e where "e = ilog2 x"
  define s :: rat where "s = 2 powi (e - 52)"
  have s: "0 < s" by (simp add: s_def two_powi_pos)
  have lo: "2 powi e \<le> x" and hi: "x < 2 powi (e + 1)"
    using ilog2_bounds [OF assms] by (simp_all add: e_def)
  have e1: "(2::rat) powi e = of_int (2 ^ 52) * s"
    using power_int_add [of "2::rat" 52 "e - 52"] by (simp add: s_def)
  have e2: "(2::rat) powi (e + 1) = of_int (2 ^ 53) * s"
    using power_int_add [of "2::rat" 53 "e - 52"] by (simp add: s_def add.commute)
  have "of_int (2 ^ 52) \<le> x / s"
    using lo s by (simp add: e1 pos_le_divide_eq)
  then have a: "2 ^ 52 \<le> rne (x / s)"
    using rne_mono [of "of_int (2 ^ 52)" "x / s"] by (simp only: rne_of_int)
  have "x / s \<le> of_int (2 ^ 53)"
    using hi s by (simp add: e2 pos_divide_le_eq)
  then have b: "rne (x / s) \<le> 2 ^ 53"
    using rne_mono [of "x / s" "of_int (2 ^ 53)"] by (simp only: rne_of_int)
  have v: "binary64 x = of_int (rne (x / s)) * s"
    using assms by (simp add: binary64_def Let_def e_def s_def)
  have "of_int (2 ^ 52) * s \<le> of_int (rne (x / s)) * s"
    using a s by (simp only: mult_le_cancel_right_pos of_int_le_iff)
  moreover have "of_int (rne (x / s)) * s \<le> of_int (2 ^ 53) * s"
    using b s by (simp only: mult_le_cancel_right_pos of_int_le_iff)
  ultimately show ?thesis
    by (simp only: v e1 e2 e_def [symmetric])
qed

lemma binary64_pos: "0 < x \<Longrightarrow> 0 < binary64 x"
  using binary64_pos_bounds [of x] two_powi_pos [of "ilog2 x"] by linarith

lemma binary64_mono_pos:
  assumes "0 < x" "x \<le> y"
  shows "binary64 x \<le> binary64 y"
proof (cases "ilog2 x = ilog2 y")
  case True
  define s :: rat where "s = 2 powi (ilog2 y - 52)"
  have s: "0 < s" by (simp add: s_def two_powi_pos)
  have "x / s \<le> y / s" using assms s by (simp add: divide_right_mono)
  then have "rne (x / s) \<le> rne (y / s)" by (rule rne_mono)
  then have "of_int (rne (x / s)) * s \<le> of_int (rne (y / s)) * s"
    using s by (simp only: mult_le_cancel_right_pos of_int_le_iff)
  then show ?thesis
    using assms True by (simp add: binary64_def Let_def s_def)
next
  case False
  with ilog2_mono [OF assms] have "ilog2 x + 1 \<le> ilog2 y" by simp
  then have "(2::rat) powi (ilog2 x + 1) \<le> 2 powi (ilog2 y)" by (rule two_powi_mono)
  moreover have "binary64 x \<le> 2 powi (ilog2 x + 1)"
    using binary64_pos_bounds [of x] assms by simp
  moreover have "2 powi (ilog2 y) \<le> binary64 y"
    using binary64_pos_bounds [of y] assms by simp
  ultimately show ?thesis by linarith
qed

lemma binary64_minus: "binary64 (- x) = - binary64 x"
  by (simp add: binary64_def Let_def rne_minus)

lemma binary64_mono:
  assumes "x \<le> y"
  shows "binary64 x \<le> binary64 y"
proof -
  consider "0 < x" | "x = 0" | "x < 0" "y < 0" | "x < 0" "0 \<le> y" by linarith
  then show ?thesis
  proof cases
    case 1
    then show ?thesis using assms by (rule binary64_mono_pos)
  next
    case 2
    then show ?thesis
      using assms binary64_pos [of y] by (cases "y = 0") (simp_all add: binary64_def)
  next
    case 3
    then have "binary64 (- y) \<le> binary64 (- x)"
      using assms by (intro binary64_mono_pos) simp_all
    then show ?thesis by (simp add: binary64_minus)
  next
    case 4
    have "binary64 x < 0"
      using binary64_pos [of "- x"] 4 by (simp add: binary64_minus)
    moreover have "0 \<le> binary64 y"
      using binary64_pos [of y] 4 by (cases "y = 0") (simp_all add: binary64_def)
    ultimately show ?thesis by linarith
  qed
qed

lemma py_round1_mono:
  assumes "x \<le> y"
  shows "py_round1 x \<le> py_round1 y"
proof -
  have "rne (x * 10) \<le> rne (y * 10)"
    using assms by (intro rne_mono) simp
  then have "(of_int (rne (x * 10)) :: rat) / 10 \<le> of_int (rne (y * 10)) / 10"
    by simp
  then show ?thesis
    unfolding py_round1_def by (rule binary64_mono)
qed

lemma rne_error: "\<bar>of_int (rne x) - x\<bar> \<le> 1 / 2"
proof -
  define n where "n = \<lfloor>x\<rfloor>"
  define d where "d = x - of_int n"
  have d: "0 \<le> d" "d < 1" unfolding d_def n_def by linarith+
  have x: "x = of_int n + d" by (simp add: d_def)
  have r: "rne x = (if d < 1 / 2 then n else if 1 / 2 < d then n + 1
      else if even n then n else n + 1)"
    by (simp add: rne_def Let_def n_def d_def)
  have "of_int (rne x) - x = - d \<and> d \<le> 1 / 2 \<or> of_int (rne x) - x = 1 - d \<and> 1 / 2 \<le> d"
    by (simp add: r) (simp add: d_def)
  then show ?thesis
    using d by (auto simp: abs_if)
qed

lemma binary64_error: "\<bar>binary64 x - x\<bar> \<le> \<bar>x\<bar> / 2 ^ 53"
proof (cases "x = 0")
  case True
  then show ?thesis by (simp add: binary64_def)
next
  case False
  define e where "e = ilog2 \<bar>x\<bar>"
  define s :: rat where "s = 2 powi (e - 52)"
  have s: "0 < s" by (simp add: s_def two_powi_pos)
  have lo: "2 powi e \<le> \<bar>x\<bar>"
    using ilog2_bounds [of "\<bar>x\<bar>"] False by (simp add: e_def)
  have e1: "(2::rat) powi e = 2 ^ 52 * s"
    using power_int_add [of "2::rat" 52 "e - 52"] by (simp add: s_def)
  have v: "binary64 x = of_int (rne (x / s)) * s"
    using False by (simp add: binary64_def Let_def e_def s_def)
  have "binary64 x - x = (of_int (rne (x / s)) - x / s) * s"
    using s by (simp add: v field_simps)
  then have "\<bar>binary64 x - x\<bar> = \<bar>of_int (rne (x / s)) - x / s\<bar> * s"
    using s by (simp add: abs_mult)
  also have "\<dots> \<le> 1 / 2 * s"
    using rne_error [of "x / s"] s by (intro mult_right_mono) simp_all
  also have "\<dots> = 2 powi e / 2 ^ 53" by (simp add: e1)
  also have "\<dots> \<le> \<bar>x\<bar> / 2 ^ 53"
    using lo by (simp add: divide_right_mono)
  finally show ?thesis .
qed

lemma binary64_1: "binary64 1 = 1" by code_simp

lemma binary64_100: "binary64 100 = 100" by code_simp

lemma binary64_0: "binary64 0 = 0"
  by (simp add: binary64_def)

lemma rne_0: "rne 0 = 0"
  using rne_of_int [of 0] by simp

lemma rne_1000: "rne 1000 = 1000"
  using rne_of_int [of 1000] by simp

lemma binary64_of_int_small:
  assumes "\<bar>n\<bar> \<le> 2 ^ 53"
  shows "binary64 (of_int n) = of_int n"
proof (cases "n = 0")
  case True
  then show ?thesis by (simp add: binary64_def)
next
  case False
  define x :: rat where "x = of_int n"
  define e where "e = ilog2 \<bar>x\<bar>"
  have x0: "x \<noteq> 0" using False by (simp add: x_def)
  have lo: "2 powi e \<le> \<bar>x\<bar>"
    using ilog2_bounds [of "\<bar>x\<bar>"] x0 by (simp add: e_def)
  have "\<bar>x\<bar> \<le> 2 ^ 53" using assms by (simp add: x_def flip: of_int_abs)
  have "e \<le> 53"
  proof (rule ccontr)
    assume "\<not> e \<le> 53"
    then have "54 \<le> e" by simp
    then have "(2::rat) powi 54 \<le> 2 powi e" by (rule two_powi_mono)
    with lo \<open>\<bar>x\<bar> \<le> 2 ^ 53\<close> show False by simp
  qed
  show ?thesis
  proof (cases "e \<le> 52")
    case True
    define k where "k = nat (52 - e)"
    have s: "(2::rat) powi (e - 52) = 1 / 2 ^ k"
      using True power_int_minus_divide [of "2::rat" "52 - e"] by (simp add: k_def power_int_def)
    have "x / 2 powi (e - 52) = of_int (n * 2 ^ k)"
      by (simp add: s x_def)
    then have "rne (x / 2 powi (e - 52)) = n * 2 ^ k"
      by (simp only: rne_of_int)
    then show ?thesis
      using x0 by (simp add: binary64_def Let_def e_def [symmetric] x_def [symmetric] s)
  next
    case F: False
    with \<open>e \<le> 53\<close> have e: "e = 53" by simp
    with lo \<open>\<bar>x\<bar> \<le> 2 ^ 53\<close> have ax: "\<bar>x\<bar> = 2 ^ 53" by simp
    then have "x = 2 ^ 53 \<or> x = - (2 ^ 53)" by (simp add: abs_if split: if_splits)
    moreover have "binary64 (2 ^ 53) = 2 ^ 53" by code_simp
    ultimately show ?thesis
      unfolding x_def [symmetric] using binary64_minus [of "2 ^ 53"] by auto
  qed
qed

lemma percent_error:
  assumes "0 \<le> q" "q \<le> 1"
  shows "\<bar>py_round1 (binary64 (binary64 q * 100)) - 100 * q\<bar> \<le> 1 / 20 + 1 / 10 ^ 12"
proof -
  define a where "a = binary64 q"
  define b where "b = binary64 (a * 100)"
  define c :: rat where "c = of_int (rne (b * 10)) / 10"
  define d where "d = binary64 c"
  have a0: "0 \<le> a" using binary64_mono [OF assms(1)] by (simp add: a_def binary64_0)
  have a1: "a \<le> 1" using binary64_mono [OF assms(2)] by (simp add: a_def binary64_1)
  have ea: "\<bar>a - q\<bar> \<le> 1 / 2 ^ 53"
  proof -
    have "\<bar>a - q\<bar> \<le> \<bar>q\<bar> / 2 ^ 53" unfolding a_def by (rule binary64_error)
    also have "\<dots> \<le> 1 / 2 ^ 53" using assms by (simp add: divide_right_mono)
    finally show ?thesis .
  qed
  have b0: "0 \<le> b"
    using binary64_mono [of 0 "a * 100"] a0 by (simp add: b_def binary64_0)
  have b1: "b \<le> 100"
    using binary64_mono [of "a * 100" 100] a1 by (simp add: b_def binary64_100)
  have eb: "\<bar>b - a * 100\<bar> \<le> 100 / 2 ^ 53"
  proof -
    have "\<bar>b - a * 100\<bar> \<le> \<bar>a * 100\<bar> / 2 ^ 53" unfolding b_def by (rule binary64_error)
    also have "\<dots> \<le> 100 / 2 ^ 53" using a0 a1 by (simp add: divide_right_mono)
    finally show ?thesis .
  qed
  have r0: "0 \<le> rne (b * 10)"
    using rne_mono [of 0 "b * 10"] b0 by (simp add: rne_0)
  have r1: "rne (b * 10) \<le> 1000"
    using rne_mono [of "b * 10" 1000] b1 by (simp add: rne_1000)
  have c0: "0 \<le> c" using r0 by (simp add: c_def)
  have c1: "c \<le> 100" using r1 by (simp add: c_def)
  have ec: "\<bar>c - b\<bar> \<le> 1 / 20"
  proof -
    have "c - b = (of_int (rne (b * 10)) - b * 10) / 10" by (simp add: c_def field_simps)
    then have "\<bar>c - b\<bar> = \<bar>(of_int (rne (b * 10)) - b * 10) / 10\<bar>" by (rule arg_cong)
    also have "\<dots> = \<bar>of_int (rne (b * 10)) - b * 10\<bar> / 10"
      unfolding abs_divide by simp
    also have "\<dots> \<le> (1 / 2) / 10"
      using rne_error [of "b * 10"] by (intro divide_right_mono) simp_all
    finally show ?thesis by simp
  qed
  have ed: "\<bar>d - c\<bar> \<le> 100 / 2 ^ 53"
  proof -
    have "\<bar>d - c\<bar> \<le> \<bar>c\<bar> / 2 ^ 53" unfolding d_def by (rule binary64_error)
    also have "\<dots> \<le> 100 / 2 ^ 53" using c0 c1 by (simp add: divide_right_mono)
    finally show ?thesis .
  qed
  have "\<bar>d - 100 * q\<bar> \<le> \<bar>d - c\<bar> + \<bar>c - b\<bar> + \<bar>b - a * 100\<bar> + 100 * \<bar>a - q\<bar>"
    by (simp add: abs_if split: if_splits)
  also have "\<dots> \<le> 100 / 2 ^ 53 + 1 / 20 + 100 / 2 ^ 53 + 100 * (1 / 2 ^ 53)"
    using ea eb ec ed by (intro add_mono mult_left_mono) simp_all
  also have "\<dots> \<le> 1 / 20 + 1 / 10 ^ 12" by simp
  finally show ?thesis
    by (simp add: d_def c_def b_def a_def py_round1_def)
qed

section \<open>Recording results\<close>

lemma find_row_None: "find P rs = None \<longleftrightarrow> (\<forall>r\<in>set rs. \<not> P r)"
  by (auto simp: find_None_iff)

lemma row_id_bump: "row_id (bump boxer_id result r) = row_id r"
  by (simp add: bump_def)

lemma update_boxer_stats_invalid:
  "result \<notin> {''win'', ''loss''} \<Longrightarrow>
   update_boxer_stats db boxer_id result = (Inl (ValueError (Invalid_result result)), db)"
  by (simp add: update_boxer_stats_def)

lemma update_boxer_stats_missing:
  assumes "result \<in> {''win'', ''loss''}" "\<forall>r\<in>set (boxers db). row_id r \<noteq> boxer_id"
  shows "update_boxer_stats db boxer_id result =
    (Inl (ValueError (Not_found_id boxer_id)),
     db\<lparr>calls := calls db @ [Connect, Execute (Select_id_where_id boxer_id)]\<rparr>)"
  using assms
  by (auto simp: update_boxer_stats_def Let_def execute_def connect_def find_row_None)

lemma update_boxer_stats_found:
  assumes "result \<in> {''win'', ''loss''}" "\<exists>r\<in>set (boxers db). row_id r = boxer_id"
  shows "fst (update_boxer_stats db boxer_id result) = Inr ()"
    and "boxers (snd (update_boxer_stats db boxer_id result)) =
         map (bump boxer_id result) (boxers db)"
  using assms
  by (auto simp: update_boxer_stats_def Let_def execute_def connect_def commit_def
      find_row_None bump_def)

lemma boxers_update_boxer_stats:
  "boxers (snd (update_boxer_stats db boxer_id result)) =
     (if result \<in> {''win'', ''loss''} \<and> (\<exists>r\<in>set (boxers db). row_id r = boxer_id)
      then map (bump boxer_id result) (boxers db) else boxers db)"
proof (cases "result \<in> {''win'', ''loss''}")
  case False
  then show ?thesis by (simp add: update_boxer_stats_invalid)
next
  case True
  show ?thesis
  proof (cases "\<exists>r\<in>set (boxers db). row_id r = boxer_id")
    case True
    with \<open>result \<in> _\<close> show ?thesis by (simp add: update_boxer_stats_found(2))
  next
    case False
    with \<open>result \<in> _\<close> show ?thesis by (simp add: update_boxer_stats_missing)
  qed
qed

text \<open>
  C2. For a row with the id of the call and a result of \<^verbatim>\<open>'win'\<close> or \<^verbatim>\<open>'loss'\<close>,
  \<^verbatim>\<open>update_boxer_stats\<close> succeeds, keeps the table's length, adds exactly 1 to the row's
  fights, and adds 1 to its wins for a win and 0 for a loss. A win followed by a loss on a
  row that starts at 0 fights and 0 wins gives 2 fights and 1 win. (This is the sqlite
  variant; \<^verbatim>\<open>Boxers.update_stats\<close> is treated among the further properties.)
\<close>

theorem update_stats_counts:
  assumes "result \<in> {''win'', ''loss''}"
    and "k < length (boxers db)"
    and "row_id (boxers db ! k) = boxer_id"
  shows "fst (update_boxer_stats db boxer_id result) = Inr () \<and>
    length (boxers (snd (update_boxer_stats db boxer_id result))) = length (boxers db) \<and>
    row_fights (boxers (snd (update_boxer_stats db boxer_id result)) ! k) =
      row_fights (boxers db ! k) + 1 \<and>
    row_wins (boxers (snd (update_boxer_stats db boxer_id result)) ! k) =
      row_wins (boxers db ! k) + (if result = ''win'' then 1 else 0) \<and>
    (row_fights (boxers db ! k) = 0 \<and> row_wins (boxers db ! k) = 0 \<longrightarrow>
      row_fights (boxers (record_results db [(boxer_id, ''win''), (boxer_id, ''loss'')]) ! k) = 2 \<and>
      row_wins (boxers (record_results db [(boxer_id, ''win''), (boxer_id, ''loss'')]) ! k) = 1)"
proof -
  have ex: "\<exists>r\<in>set (boxers db). row_id r = boxer_id"
    using assms(2,3) nth_mem by blast
  have after: "\<And>res. res \<in> {''win'', ''loss''} \<Longrightarrow>
      boxers (snd (update_boxer_stats db boxer_id res)) = map (bump boxer_id res) (boxers db)"
    using ex by (simp add: update_boxer_stats_found(2))
  have one: "fst (update_boxer_stats db boxer_id result) = Inr ()"
    using assms(1) ex by (rule update_boxer_stats_found(1))
  have len: "length (boxers (snd (update_boxer_stats db boxer_id result))) = length (boxers db)"
    using after [OF assms(1)] by simp
  have row: "boxers (snd (update_boxer_stats db boxer_id result)) ! k =
      bump boxer_id result (boxers db ! k)"
    using after [OF assms(1)] assms(2) by simp
  have two: "boxers (record_results db [(boxer_id, ''win''), (boxer_id, ''loss'')]) ! k =
      bump boxer_id ''loss'' (bump boxer_id ''win'' (boxers db ! k))"
  proof -
    let ?db1 = "snd (update_boxer_stats db boxer_id ''win'')"
    have b1: "boxers ?db1 = map (bump boxer_id ''win'') (boxers db)"
      using after [of "''win''"] by simp
    from ex obtain r where r: "r \<in> set (boxers db)" "row_id r = boxer_id" by blast
    then have "bump boxer_id ''win'' r \<in> set (boxers ?db1)" by (simp add: b1)
    moreover have "row_id (bump boxer_id ''win'' r) = boxer_id"
      using r by (simp add: row_id_bump)
    ultimately have "\<exists>r\<in>set (boxers ?db1). row_id r = boxer_id" by blast
    then have "boxers (snd (update_boxer_stats ?db1 boxer_id ''loss'')) =
        map (bump boxer_id ''loss'') (boxers ?db1)"
      by (simp add: update_boxer_stats_found(2))
    then show ?thesis using assms(2) by (simp add: b1)
  qed
  have f: "row_fights (boxers (snd (update_boxer_stats db boxer_id result)) ! k) =
      row_fights (boxers db ! k) + 1"
    and w: "row_wins (boxers (snd (update_boxer_stats db boxer_id result)) ! k) =
      row_wins (boxers db ! k) + (if result = ''win'' then 1 else 0)"
    using assms(3) by (simp_all add: row bump_def)
  have fresh: "row_fights (boxers db ! k) = 0 \<and> row_wins (boxers db ! k) = 0 \<longrightarrow>
      row_fights (boxers (record_results db [(boxer_id, ''win''), (boxer_id, ''loss'')]) ! k) = 2 \<and>
      row_wins (boxers (record_results db [(boxer_id, ''win''), (boxer_id, ''loss'')]) ! k) = 1"
    using assms(3) by (simp only: two) (simp add: bump_def)
  from one len f w fresh show ?thesis
    by (intro conjI)
qed

theorem update_stats_counts_witness:
  "''win'' \<in> {''win'', ''loss''} \<and> 0 < length (boxers example_database) \<and>
   row_id (boxers example_database ! 0) = 1 \<and>
   fst (update_boxer_stats example_database 1 ''win'') = Inr () \<and>
   row_fights (boxers (snd (update_boxer_stats example_database 1 ''win'')) ! 0) = 1 \<and>
   row_wins (boxers (snd (update_boxer_stats example_database 1 ''win'')) ! 0) = 1 \<and>
   row_fights (boxers (record_results example_database [(1, ''win''), (1, ''loss'')]) ! 0) = 2 \<and>
   row_wins (boxers (record_results example_database [(1, ''win''), (1, ''loss'')]) ! 0) = 1"
  using update_stats_counts [of "''win''" 0 example_database 1]
  by (simp add: example_database_def example_row_def)

lemma update_boxer_stats_row:
  assumes "k < length (boxers db)"
  shows "length (boxers (snd (update_boxer_stats db boxer_id result))) = length (boxers db)"
    and "row_id (boxers (snd (update_boxer_stats db boxer_id result)) ! k) = row_id (boxers db ! k)"
    and "row_wins (boxers db ! k) \<le> row_fights (boxers db ! k) \<Longrightarrow>
         row_wins (boxers (snd (update_boxer_stats db boxer_id result)) ! k)
           \<le> row_fights (boxers (snd (update_boxer_stats db boxer_id result)) ! k)"
  using assms by (simp_all add: boxers_update_boxer_stats bump_def)

lemma record_results_row:
  assumes "k < length (boxers db)" "row_wins (boxers db ! k) \<le> row_fights (boxers db ! k)"
  shows "length (boxers (record_results db cs)) = length (boxers db) \<and>
    row_id (boxers (record_results db cs) ! k) = row_id (boxers db ! k) \<and>
    row_wins (boxers (record_results db cs) ! k) \<le> row_fights (boxers (record_results db cs) ! k)"
  using assms
proof (induction cs arbitrary: db)
  case Nil
  then show ?case by simp
next
  case (Cons c cs)
  obtain boxer_id result where c: "c = (boxer_id, result)" by (cases c)
  let ?db1 = "snd (update_boxer_stats db boxer_id result)"
  have k1: "k < length (boxers ?db1)"
    using Cons.prems(1) by (simp add: update_boxer_stats_row(1))
  have inv1: "row_wins (boxers ?db1 ! k) \<le> row_fights (boxers ?db1 ! k)"
    using Cons.prems by (rule update_boxer_stats_row(3))
  from Cons.IH [OF k1 inv1] show ?case
    using Cons.prems(1) by (simp add: c update_boxer_stats_row(1,2))
qed

lemma snd_Boxers_update_stats: "snd (Boxers_update_stats s result) = s"
  by (simp add: Boxers_update_stats_def)

lemma Boxers_record_results_unchanged: "Boxers_record_results s rs = s"
  by (induction rs arbitrary: s) (simp_all add: snd_Boxers_update_stats)

text \<open>
  C3. A boxer that starts with 0 fights and 0 wins has \<open>wins \<le> fights\<close> after every
  prefix of every sequence of \<^verbatim>\<open>update_boxer_stats\<close> calls (whatever their ids and
  results). Under \<^verbatim>\<open>Boxers.update_stats\<close> the object and the session are, after every
  prefix of every sequence of calls, what they were before it: no call changes a counter.
\<close>

theorem wins_never_exceed_fights:
  assumes "k < length (boxers db)"
    and "row_fights (boxers db ! k) = 0" and "row_wins (boxers db ! k) = 0"
  shows "length (boxers (record_results db (take n cs))) = length (boxers db) \<and>
    row_id (boxers (record_results db (take n cs)) ! k) = row_id (boxers db ! k) \<and>
    row_wins (boxers (record_results db (take n cs)) ! k)
      \<le> row_fights (boxers (record_results db (take n cs)) ! k) \<and>
    Boxers_record_results (self, c) (take n rs) = (self, c)"
proof -
  have "row_wins (boxers db ! k) \<le> row_fights (boxers db ! k)"
    using assms(2,3) by simp
  with assms(1) have hw2: "length (boxers (record_results db (take n cs))) = length (boxers db) \<and>
    row_id (boxers (record_results db (take n cs)) ! k) = row_id (boxers db ! k) \<and>
    row_wins (boxers (record_results db (take n cs)) ! k)
      \<le> row_fights (boxers (record_results db (take n cs)) ! k)"
    by (rule record_results_row)
  have "Boxers_record_results (self, c) (take n rs) = (self, c)"
    by (rule Boxers_record_results_unchanged)
  with hw2 show ?thesis by simp
qed

theorem wins_never_exceed_fights_witness:
  "0 < length (boxers example_database) \<and>
   row_fights (boxers example_database ! 0) = 0 \<and> row_wins (boxers example_database ! 0) = 0 \<and>
   row_wins (boxers (record_results example_database
       (take 2 [(1, ''win''), (1, ''draw''), (1, ''loss'')])) ! 0)
     \<le> row_fights (boxers (record_results example_database
       (take 2 [(1, ''win''), (1, ''draw''), (1, ''loss'')])) ! 0) \<and>
   row_wins (boxers (record_results example_database [(1, ''win''), (1, ''win'')]) ! 0) = 2 \<and>
   Boxers_record_results (example_Boxers, 0) (take 2 [''win'']) = (example_Boxers, 0)"
  using wins_never_exceed_fights [where k = 0 and db = example_database
      and self = example_Boxers and n = 2 and cs = "[(1, ''win''), (1, ''draw''), (1, ''loss'')]"
      and c = 0 and rs = "[''win'']"]
  by (simp add: example_database_def example_row_def
      boxers_update_boxer_stats bump_def)

text \<open>
  C8. With a result other than \<^verbatim>\<open>'win'\<close> and \<^verbatim>\<open>'loss'\<close>, \<^verbatim>\<open>update_boxer_stats\<close> raises the
  ValueError for the result, a ValidationError, whatever the id, and the table, with the
  fights and wins of every boxer, is as before; \<^verbatim>\<open>Boxers.update_stats\<close> raises it with the
  object and the session untouched.
\<close>

theorem update_stats_rejects_unknown_result:
  assumes "result \<notin> {''win'', ''loss''}"
  shows "fst (update_boxer_stats db boxer_id result) = Inl (ValueError (Invalid_result result)) \<and>
    kind_of (ValueError (Invalid_result result)) = ValidationError \<and>
    boxers (snd (update_boxer_stats db boxer_id result)) = boxers db \<and>
    map row_fights (boxers (snd (update_boxer_stats db boxer_id result))) =
      map row_fights (boxers db) \<and>
    map row_wins (boxers (snd (update_boxer_stats db boxer_id result))) =
      map row_wins (boxers db) \<and>
    Boxers_update_stats (self, c) result = (Inl (ValueError (Invalid_result result)), (self, c))"
  using assms by (simp add: update_boxer_stats_invalid Boxers_update_stats_def)

theorem update_stats_rejects_unknown_result_witness:
  "''draw'' \<notin> {''win'', ''loss''} \<and>
   fst (update_boxer_stats example_database 1 ''draw'') = Inl (ValueError (Invalid_result ''draw'')) \<and>
   map row_fights (boxers (snd (update_boxer_stats example_database 1 ''draw''))) = [0] \<and>
   map row_wins (boxers (snd (update_boxer_stats example_database 1 ''draw''))) = [0] \<and>
   Boxers_update_stats (example_Boxers, 0) ''draw'' =
     (Inl (ValueError (Invalid_result ''draw'')), (example_Boxers, 0))"
  using update_stats_rejects_unknown_result [of "''draw''" example_database 1 example_Boxers 0]
  by (simp add: example_database_def example_row_def)

text \<open>
  C10. For an id that no row has: with an invalid result \<^verbatim>\<open>update_boxer_stats\<close> raises the
  ValueError for the result, not the one for the missing boxer, and makes no call on the
  connection; with a valid result it connects, runs the lookup and raises the error for
  the missing boxer. \<^verbatim>\<open>Boxers.update_stats\<close>, which has no lookup, raises the error for an
  invalid result without a commit.
\<close>

theorem update_boxer_stats_checks_result_first:
  assumes "\<forall>r\<in>set (boxers db). row_id r \<noteq> boxer_id"
  shows "(result \<notin> {''win'', ''loss''} \<longrightarrow>
      fst (update_boxer_stats db boxer_id result) = Inl (ValueError (Invalid_result result)) \<and>
      fst (update_boxer_stats db boxer_id result) \<noteq> Inl (ValueError (Not_found_id boxer_id)) \<and>
      calls (snd (update_boxer_stats db boxer_id result)) = calls db \<and>
      snd (update_boxer_stats db boxer_id result) = db \<and>
      fst (Boxers_update_stats (self, c) result) = Inl (ValueError (Invalid_result result)) \<and>
      snd (snd (Boxers_update_stats (self, c) result)) = c) \<and>
    (result \<in> {''win'', ''loss''} \<longrightarrow>
      fst (update_boxer_stats db boxer_id result) = Inl (ValueError (Not_found_id boxer_id)) \<and>
      calls (snd (update_boxer_stats db boxer_id result)) =
        calls db @ [Connect, Execute (Select_id_where_id boxer_id)])"
proof (cases "result \<in> {''win'', ''loss''}")
  case True
  then show ?thesis
    using update_boxer_stats_missing [OF True assms] by simp
next
  case False
  then show ?thesis
    by (simp add: update_boxer_stats_invalid Boxers_update_stats_def)
qed

theorem update_boxer_stats_checks_result_first_witness:
  "map row_id (boxers example_database) = [1] \<and>
   ''draw'' \<notin> {''win'', ''loss''} \<and>
   fst (update_boxer_stats example_database 999 ''draw'') =
     Inl (ValueError (Invalid_result ''draw'')) \<and>
   calls (snd (update_boxer_stats example_database 999 ''draw'')) = [] \<and>
   snd (snd (Boxers_update_stats (example_Boxers, 0) ''draw'')) = 0 \<and>
   fst (update_boxer_stats example_database 999 ''win'') = Inl (ValueError (Not_found_id 999)) \<and>
   calls (snd (update_boxer_stats example_database 999 ''win'')) =
     [Connect, Execute (Select_id_where_id 999)]"
  using update_boxer_stats_checks_result_first [of example_database 999 "''draw''" example_Boxers 0]
    update_boxer_stats_checks_result_first [of example_database 999 "''win''" example_Boxers 0]
  by (simp add: example_database_def example_row_def)

section \<open>The leaderboard\<close>

lemma boxers_create_boxer:
  "boxers (snd (create_boxer ins db name weight height reach age)) = boxers db \<or>
   (125 \<le> weight \<and> (\<exists>r. row_weight r = weight \<and> row_fights r = 0 \<and> row_wins r = 0 \<and>
      boxers (snd (create_boxer ins db name weight height reach age)) = boxers db @ [r]))"
  by (cases ins)
    (auto simp: create_boxer_def Let_def execute_def execute_refused_def connect_def commit_def)

lemma boxers_delete_boxer:
  "boxers (snd (delete_boxer db boxer_id)) = boxers db \<or>
   boxers (snd (delete_boxer db boxer_id)) = filter (\<lambda>r. row_id r \<noteq> boxer_id) (boxers db)"
  by (simp add: delete_boxer_def Let_def execute_def connect_def commit_def)

lemma boxers_get_boxer_by_id: "boxers (snd (get_boxer_by_id db boxer_id)) = boxers db"
  by (simp add: get_boxer_by_id_def Let_def execute_def connect_def split: option.split)

lemma boxers_get_boxer_by_name: "boxers (snd (get_boxer_by_name db boxer_name)) = boxers db"
  by (simp add: get_boxer_by_name_def Let_def execute_def connect_def split: option.split)

lemma boxers_get_leaderboard: "boxers (snd (get_leaderboard db sort_by)) = boxers db"
  by (simp add: get_leaderboard_def Let_def execute_def connect_def)

lemma row_weight_bump: "row_weight (bump boxer_id result r) = row_weight r"
  by (simp add: bump_def)

lemma stored_weights:
  assumes "stored db"
  shows "\<forall>r\<in>set (boxers db). 125 \<le> row_weight r"
  using assms
proof (induction rule: stored.induct)
  case stored_empty
  then show ?case by (simp add: empty_database_def)
next
  case (stored_create db ins name weight height reach age)
  then show ?case
    using boxers_create_boxer [of ins db name weight height reach age] by auto
next
  case (stored_delete db boxer_id)
  then show ?case
    using boxers_delete_boxer [of db boxer_id] by auto
next
  case (stored_update db boxer_id result)
  then show ?case
    by (auto simp: boxers_update_boxer_stats row_weight_bump)
next
  case (stored_by_id db boxer_id)
  then show ?case by (simp add: boxers_get_boxer_by_id)
next
  case (stored_by_name db boxer_name)
  then show ?case by (simp add: boxers_get_boxer_by_name)
next
  case (stored_leaderboard db sort_by)
  then show ?case by (simp add: boxers_get_leaderboard)
qed

lemma stored_record_results: "stored db \<Longrightarrow> stored (record_results db cs)"
proof (induction cs arbitrary: db)
  case Nil
  then show ?case by simp
next
  case (Cons c cs)
  obtain boxer_id result where c: "c = (boxer_id, result)" by (cases c)
  have "stored (snd (update_boxer_stats db boxer_id result))"
    using Cons.prems by (rule stored_update)
  then show ?case unfolding c by (simp add: Cons.IH)
qed

lemma row_stats_bump:
  "0 \<le> row_wins r \<and> row_wins r \<le> row_fights r \<Longrightarrow>
   0 \<le> row_wins (bump boxer_id result r) \<and>
   row_wins (bump boxer_id result r) \<le> row_fights (bump boxer_id result r)"
  by (simp add: bump_def)

lemma stored_stats:
  assumes "stored db"
  shows "\<forall>r\<in>set (boxers db). 0 \<le> row_wins r \<and> row_wins r \<le> row_fights r"
  using assms
proof (induction rule: stored.induct)
  case stored_empty
  then show ?case by (simp add: empty_database_def)
next
  case (stored_create db ins name weight height reach age)
  then show ?case
    using boxers_create_boxer [of ins db name weight height reach age] by auto
next
  case (stored_delete db boxer_id)
  then show ?case
    using boxers_delete_boxer [of db boxer_id] by auto
next
  case (stored_update db boxer_id result)
  then show ?case
    using row_stats_bump by (auto simp: boxers_update_boxer_stats)
next
  case (stored_by_id db boxer_id)
  then show ?case by (simp add: boxers_get_boxer_by_id)
next
  case (stored_by_name db boxer_name)
  then show ?case by (simp add: boxers_get_boxer_by_name)
next
  case (stored_leaderboard db sort_by)
  then show ?case by (simp add: boxers_get_leaderboard)
qed

lemma ratio_bounds:
  assumes "0 \<le> w" "w \<le> f" "0 < (f::int)"
  shows "0 \<le> (of_int w :: rat) / of_int f" "(of_int w :: rat) / of_int f \<le> 1"
  using assms by simp_all

lemma sql_win_pct_small:
  assumes "0 \<le> row_wins r" "row_wins r \<le> row_fights r" "row_fights r \<le> 2 ^ 53"
  shows "sql_win_pct r = binary64 (of_int (row_wins r) / of_int (row_fights r))"
proof -
  have "binary64 (of_int (row_wins r)) = of_int (row_wins r)"
    using assms by (intro binary64_of_int_small) simp
  moreover have "binary64 (of_int (row_fights r)) = of_int (row_fights r)"
    using assms by (intro binary64_of_int_small) simp
  ultimately show ?thesis by (simp add: sql_win_pct_def)
qed

lemma get_weight_class_valid:
  "125 \<le> w \<Longrightarrow> get_weight_class w = Inr (projr (get_weight_class w))"
  by (simp add: get_weight_class_def)

lemma leaderboard_of_rows_valid:
  assumes "\<forall>h\<in>set hits. 125 \<le> row_weight (fst h)"
  shows "leaderboard_of_rows hits = Inr (map entry_of_row hits)"
  using assms
proof (induction hits)
  case Nil
  then show ?case by simp
next
  case (Cons h hits)
  obtain r win_pct where h: "h = (r, win_pct)" by (cases h)
  have w: "get_weight_class (row_weight r) = Inr (projr (get_weight_class (row_weight r)))"
    using Cons.prems by (intro get_weight_class_valid) (simp add: h)
  have rest: "leaderboard_of_rows hits = Inr (map entry_of_row hits)"
    using Cons by simp
  show ?case
    unfolding h by (subst leaderboard_of_rows.simps, subst w) (simp add: rest entry_of_row_def)
qed

lemma row_of_entry_of_row: "row_of_entry (entry_of_row h) = fst h"
  by (simp add: row_of_entry_def entry_of_row_def)

lemma select_leaderboard_rows:
  "mset (map fst (select_leaderboard order_by rs)) = mset (filter (\<lambda>r. row_fights r > 0) rs)"
proof -
  have "mset (select_leaderboard order_by rs) =
      mset (map (\<lambda>r. (r, sql_win_pct r)) (filter (\<lambda>r. row_fights r > 0) rs))"
    by (simp add: select_leaderboard_def Let_def)
  then have "image_mset fst (mset (select_leaderboard order_by rs)) =
      image_mset fst (mset (map (\<lambda>r. (r, sql_win_pct r)) (filter (\<lambda>r. row_fights r > 0) rs)))"
    by (rule arg_cong)
  then show ?thesis by (simp add: multiset.map_comp comp_def)
qed

lemma select_leaderboard_empty:
  "filter (\<lambda>r. row_fights r > 0) rs = [] \<Longrightarrow> select_leaderboard order_by rs = []"
  by (simp add: select_leaderboard_def)

lemma select_leaderboard_snd:
  "h \<in> set (select_leaderboard order_by rs) \<Longrightarrow>
   snd h = sql_win_pct (fst h) \<and> fst h \<in> set rs \<and> row_fights (fst h) > 0"
  by (auto simp: select_leaderboard_def Let_def split: if_splits)

lemma select_leaderboard_sorted_wins:
  assumes "order_by \<noteq> ''win_pct''"
  shows "sorted_wrt (\<lambda>a b. row_wins (fst a) \<ge> row_wins (fst b)) (select_leaderboard order_by rs)"
proof -
  let ?hits = "map (\<lambda>r. (r, sql_win_pct r)) (filter (\<lambda>r. row_fights r > 0) rs)"
  have "sorted (map (\<lambda>(r, win_pct). - row_wins r) (sort_key (\<lambda>(r, win_pct). - row_wins r) ?hits))"
    by (rule sorted_sort_key)
  then have "sorted_wrt (\<lambda>a b. - row_wins (fst a) \<le> - row_wins (fst b))
      (sort_key (\<lambda>(r, win_pct). - row_wins r) ?hits)"
    by (simp add: sorted_map case_prod_beta)
  then show ?thesis
    using assms by (simp add: select_leaderboard_def Let_def)
qed

lemma select_leaderboard_sorted_win_pct:
  "sorted_wrt (\<lambda>a b. snd a \<ge> snd b) (select_leaderboard ''win_pct'' rs)"
proof -
  let ?hits = "map (\<lambda>r. (r, sql_win_pct r)) (filter (\<lambda>r. row_fights r > 0) rs)"
  have "sorted (map (\<lambda>(r, win_pct). - win_pct) (sort_key (\<lambda>(r, win_pct). - win_pct) ?hits))"
    by (rule sorted_sort_key)
  then have "sorted_wrt (\<lambda>a b. - snd a \<le> - snd b)
      (sort_key (\<lambda>(r, win_pct). - win_pct) ?hits)"
    by (simp add: sorted_map case_prod_beta)
  then show ?thesis
    by (simp add: select_leaderboard_def Let_def)
qed

lemma percent_mono:
  assumes "q \<le> p"
  shows "py_round1 (binary64 (q * 100)) \<le> py_round1 (binary64 (p * 100))"
proof -
  have "q * 100 \<le> p * 100" using assms by simp
  then have "binary64 (q * 100) \<le> binary64 (p * 100)" by (rule binary64_mono)
  then show ?thesis by (rule py_round1_mono)
qed

lemma select_leaderboard_sorted_entry_wins:
  "sorted_wrt (\<lambda>a b. entry_wins (entry_of_row a) \<ge> entry_wins (entry_of_row b))
     (select_leaderboard ''wins'' rs)"
proof -
  have "sorted_wrt (\<lambda>a b. row_wins (fst a) \<ge> row_wins (fst b)) (select_leaderboard ''wins'' rs)"
    by (rule select_leaderboard_sorted_wins) simp
  then show ?thesis by (simp add: entry_of_row_def)
qed

lemma select_leaderboard_sorted_entry_win_pct:
  "sorted_wrt (\<lambda>a b. entry_win_pct (entry_of_row a) \<ge> entry_win_pct (entry_of_row b))
     (select_leaderboard ''win_pct'' rs)"
proof -
  have "sorted_wrt (\<lambda>a b. snd a \<ge> snd b) (select_leaderboard ''win_pct'' rs)"
    by (rule select_leaderboard_sorted_win_pct)
  then have "sorted_wrt (\<lambda>a b. py_round1 (binary64 (snd b * 100))
      \<le> py_round1 (binary64 (snd a * 100))) (select_leaderboard ''win_pct'' rs)"
    by (rule sorted_wrt_mono_rel [rotated]) (simp add: percent_mono)
  then show ?thesis by (simp add: entry_of_row_def)
qed

lemma select_leaderboard_sorted_ratio:
  "sorted_wrt (\<lambda>a b. sql_win_pct (row_of_entry (entry_of_row a))
       \<ge> sql_win_pct (row_of_entry (entry_of_row b)))
     (select_leaderboard ''win_pct'' rs)"
proof -
  have "sorted_wrt (\<lambda>a b. snd a \<ge> snd b) (select_leaderboard ''win_pct'' rs)"
    by (rule select_leaderboard_sorted_win_pct)
  then have "sorted_wrt (\<lambda>a b. sql_win_pct (fst a) \<ge> sql_win_pct (fst b))
      (select_leaderboard ''win_pct'' rs)"
    by (rule sorted_wrt_mono_rel [rotated]) (simp add: select_leaderboard_snd)
  then show ?thesis by (simp add: row_of_entry_of_row)
qed

lemma get_leaderboard_valid:
  assumes "\<forall>r\<in>set (boxers db). 125 \<le> row_weight r" and "sort_by \<in> {''wins'', ''win_pct''}"
  shows "fst (get_leaderboard db sort_by) =
    Inr (map entry_of_row (select_leaderboard sort_by (boxers db)))"
proof -
  have "\<forall>h\<in>set (select_leaderboard sort_by (boxers db)). 125 \<le> row_weight (fst h)"
    using assms(1) select_leaderboard_snd by blast
  then have "leaderboard_of_rows (select_leaderboard sort_by (boxers db)) =
      Inr (map entry_of_row (select_leaderboard sort_by (boxers db)))"
    by (rule leaderboard_of_rows_valid)
  then show ?thesis
    using assms(2) by (auto simp: get_leaderboard_def Let_def execute_def connect_def)
qed

text \<open>
  C4. On every stored set of boxers and for both sort keys, \<^verbatim>\<open>get_leaderboard\<close> returns a
  list whose entries are, as a multiset, exactly the rows with \<open>fights > 0\<close>; for the key
  \<^verbatim>\<open>'wins'\<close> the entries are in descending order of their \<open>wins\<close>, for the key \<^verbatim>\<open>'win_pct'\<close>
  in descending order of the quotient the query computes from their wins and fights, and
  also of their \<open>win_pct\<close> entry; when no row has \<open>fights > 0\<close> the list is empty, not an
  error. (This is the sqlite variant; \<^verbatim>\<open>Boxers.get_leaderboard\<close> is treated among the
  further properties.)
\<close>

theorem leaderboard_ranks_boxers_with_fights:
  assumes "stored db" and "sort_by \<in> {''wins'', ''win_pct''}"
  shows "\<exists>leaderboard. fst (get_leaderboard db sort_by) = Inr leaderboard \<and>
      mset (map row_of_entry leaderboard) = mset (filter (\<lambda>r. row_fights r > 0) (boxers db)) \<and>
      (sort_by = ''wins'' \<longrightarrow>
        sorted_wrt (\<lambda>a b. entry_wins a \<ge> entry_wins b) leaderboard) \<and>
      (sort_by = ''win_pct'' \<longrightarrow>
        sorted_wrt (\<lambda>a b. sql_win_pct (row_of_entry a) \<ge> sql_win_pct (row_of_entry b))
          leaderboard \<and>
        sorted_wrt (\<lambda>a b. entry_win_pct a \<ge> entry_win_pct b) leaderboard) \<and>
      (filter (\<lambda>r. row_fights r > 0) (boxers db) = [] \<longrightarrow> leaderboard = [])"
proof -
  let ?hits = "select_leaderboard sort_by (boxers db)"
  let ?lb = "map entry_of_row ?hits"
  have w: "\<forall>r\<in>set (boxers db). 125 \<le> row_weight r"
    using assms(1) by (rule stored_weights)
  have res: "fst (get_leaderboard db sort_by) = Inr ?lb"
    using w assms(2) by (rule get_leaderboard_valid)
  have "map row_of_entry ?lb = map fst ?hits"
    by (simp add: comp_def row_of_entry_of_row)
  then have rows: "mset (map row_of_entry ?lb) = mset (filter (\<lambda>r. row_fights r > 0) (boxers db))"
    by (simp only: select_leaderboard_rows)
  have by_wins: "sort_by = ''wins'' \<longrightarrow>
      sorted_wrt (\<lambda>a b. entry_wins a \<ge> entry_wins b) ?lb"
    using select_leaderboard_sorted_entry_wins [of "boxers db"]
    by (simp add: sorted_wrt_map)
  have by_ratio: "sort_by = ''win_pct'' \<longrightarrow>
      sorted_wrt (\<lambda>a b. sql_win_pct (row_of_entry a) \<ge> sql_win_pct (row_of_entry b)) ?lb"
    using select_leaderboard_sorted_ratio [of "boxers db"]
    by (simp add: sorted_wrt_map)
  have by_win_pct: "sort_by = ''win_pct'' \<longrightarrow>
      sorted_wrt (\<lambda>a b. entry_win_pct a \<ge> entry_win_pct b) ?lb"
    using select_leaderboard_sorted_entry_win_pct [of "boxers db"]
    by (simp add: sorted_wrt_map)
  have none: "filter (\<lambda>r. row_fights r > 0) (boxers db) = [] \<longrightarrow> ?lb = []"
    by (simp add: select_leaderboard_empty)
  from res rows by_wins by_ratio by_win_pct none show ?thesis
    by blast
qed

lemma stored_example_store: "stored example_store"
  unfolding example_store_def by (intro stored_record_results stored.intros)

theorem leaderboard_ranks_boxers_with_fights_witness:
  "stored example_store \<and> ''wins'' \<in> {''wins'', ''win_pct''} \<and>
   map row_fights (boxers example_store) = [2, 2, 0] \<and>
   map row_wins (boxers example_store) = [1, 2, 0] \<and>
   map entry_name (projr (fst (get_leaderboard example_store ''wins''))) =
     [''Boxer B'', ''Boxer A''] \<and>
   mset (map row_of_entry (projr (fst (get_leaderboard example_store ''wins'')))) =
     mset (filter (\<lambda>r. row_fights r > 0) (boxers example_store)) \<and>
   sorted_wrt (\<lambda>a b. entry_wins a \<ge> entry_wins b)
     (projr (fst (get_leaderboard example_store ''wins''))) \<and>
   fst (get_leaderboard empty_database ''win_pct'') = Inr []"
proof -
  have m: "''wins'' \<in> {''wins'', ''win_pct''}" by simp
  from leaderboard_ranks_boxers_with_fights [OF stored_example_store m]
  obtain leaderboard where lb: "fst (get_leaderboard example_store ''wins'') = Inr leaderboard"
    and rows: "mset (map row_of_entry leaderboard) =
      mset (filter (\<lambda>r. row_fights r > 0) (boxers example_store))"
    and ord: "sorted_wrt (\<lambda>a b. entry_wins a \<ge> entry_wins b) leaderboard"
    by blast
  have f: "map row_fights (boxers example_store) = [2, 2, 0]" by code_simp
  have w: "map row_wins (boxers example_store) = [1, 2, 0]" by code_simp
  have n: "map entry_name (projr (fst (get_leaderboard example_store ''wins''))) =
     [''Boxer B'', ''Boxer A'']" by code_simp
  have e: "fst (get_leaderboard empty_database ''win_pct'') = Inr []" by code_simp
  from rows ord f w n e show ?thesis
    by (simp add: lb stored_example_store)
qed

lemma stored_tie_store: "stored tie_store"
  unfolding tie_store_def by (intro stored_record_results stored.intros)

lemma stored_ali_store: "stored ali_store"
  unfolding ali_store_def by (intro stored.intros)

text \<open>
  C5, as stated, fails: the claim is that \<open>win_pct\<close> is \<open>100 * wins / fights\<close> rounded to one
  decimal place. For 23 wins in 80 fights the exact percentage is 28.75, which rounds to
  28.8 whether ties go to the even digit or upwards. The code divides first: the float
  nearest to 23/80 lies below 0.2875, its product with 100 is the float just below 28.75,
  and \<^verbatim>\<open>round\<close> returns 28.7: so does \<^verbatim>\<open>get_leaderboard\<close> of the sqlite variant on a
  stored set of boxers, and so does \<^verbatim>\<open>compute_win_pct\<close> of the SQLAlchemy variant.
\<close>

theorem win_pct_counterexample:
  "stored tie_store \<and>
   map row_wins (boxers tie_store) = [23] \<and> map row_fights (boxers tie_store) = [80] \<and>
   map entry_win_pct (projr (fst (get_leaderboard tie_store ''wins''))) = [binary64 (287 / 10)] \<and>
   map entry_win_pct (projr (fst (get_leaderboard tie_store ''wins''))) \<noteq>
     [spec_round_half_even (100 * 23 / 80)] \<and>
   map entry_win_pct (projr (fst (get_leaderboard tie_store ''wins''))) \<noteq>
     [spec_round_half_up (100 * 23 / 80)] \<and>
   map entry_win_pct (projr (fst (get_leaderboard tie_store ''wins''))) \<noteq>
     [binary64 (spec_round_half_even (100 * 23 / 80))] \<and>
   compute_win_pct 23 80 = binary64 (287 / 10) \<and>
   spec_round_half_even (100 * 23 / 80) = 288 / 10 \<and>
   spec_round_half_up (100 * 23 / 80) = 288 / 10 \<and>
   binary64 (287 / 10) \<noteq> 288 / 10 \<and>
   binary64 (287 / 10) \<noteq> binary64 (288 / 10)"
  by (rule conjI [OF stored_tie_store]) code_simp

lemma leaderboard_of_rows_result:
  "leaderboard_of_rows hits = Inr leaderboard \<Longrightarrow> leaderboard = map entry_of_row hits"
proof (induction hits arbitrary: leaderboard)
  case Nil
  then show ?case by simp
next
  case (Cons h hits)
  obtain r win_pct where h: "h = (r, win_pct)" by (cases h)
  from Cons.prems obtain wc rest where
    wc: "get_weight_class (row_weight r) = Inr wc" and
    rest: "leaderboard_of_rows hits = Inr rest" and
    lb: "leaderboard = entry_of_row (r, win_pct) # rest"
    by (auto simp: h entry_of_row_def split: sum.splits)
  from Cons.IH [OF rest] lb show ?case by (simp add: h)
qed

text \<open>
  C5, amended. For every entry of a leaderboard, \<open>fights > 0\<close> and \<open>win_pct\<close> is Python's
  \<^verbatim>\<open>round(p, 1)\<close> of the float \<open>p\<close> that is the float product with 100 of the float quotient
  of wins by fights (in the sqlite variant both counters are converted to floats first);
  \<^verbatim>\<open>compute_win_pct\<close> of the SQLAlchemy variant computes the same for every \<open>fights > 0\<close>.
  The result differs from the exact percentage \<open>100 * wins / fights\<close> by at most
  \<open>1 / 20 + 1 / 10 ^ 12\<close>: in the sqlite variant on every stored set of boxers with at most
  \<open>2 ^ 53\<close> fights, for \<^verbatim>\<open>compute_win_pct\<close> whenever \<open>0 \<le> wins \<le> fights\<close>.
\<close>

theorem leaderboard_win_pct_formula:
  assumes "sort_by \<in> {''wins'', ''win_pct''}"
  shows "(fst (get_leaderboard db sort_by) = Inr leaderboard \<and> e \<in> set leaderboard \<longrightarrow>
      0 < entry_fights e \<and>
      entry_win_pct e =
        py_round1 (binary64 (binary64 (binary64 (of_int (entry_wins e))
          / binary64 (of_int (entry_fights e))) * 100)) \<and>
      (stored db \<and> entry_fights e \<le> 2 ^ 53 \<longrightarrow>
        \<bar>entry_win_pct e - 100 * of_int (entry_wins e) / of_int (entry_fights e)\<bar>
          \<le> 1 / 20 + 1 / 10 ^ 12)) \<and>
    (0 < fights \<longrightarrow>
      compute_win_pct wins fights =
        py_round1 (binary64 (binary64 (of_int wins / of_int fights) * 100)) \<and>
      (0 \<le> wins \<and> wins \<le> fights \<longrightarrow>
        \<bar>compute_win_pct wins fights - 100 * of_int wins / of_int fights\<bar>
          \<le> 1 / 20 + 1 / 10 ^ 12))"
proof (intro conjI impI)
  assume a: "fst (get_leaderboard db sort_by) = Inr leaderboard \<and> e \<in> set leaderboard"
  then have "leaderboard_of_rows (select_leaderboard sort_by (boxers db)) = Inr leaderboard"
    using assms by (auto simp: get_leaderboard_def Let_def execute_def connect_def)
  then have "leaderboard = map entry_of_row (select_leaderboard sort_by (boxers db))"
    by (rule leaderboard_of_rows_result)
  with a obtain h where h: "h \<in> set (select_leaderboard sort_by (boxers db))"
    and e: "e = entry_of_row h" by auto
  from select_leaderboard_snd [OF h]
  have s: "snd h = sql_win_pct (fst h)" and f: "0 < row_fights (fst h)"
    and m: "fst h \<in> set (boxers db)" by simp_all
  show f': "0 < entry_fights e" using f by (simp add: e entry_of_row_def)
  show v: "entry_win_pct e =
        py_round1 (binary64 (binary64 (binary64 (of_int (entry_wins e))
          / binary64 (of_int (entry_fights e))) * 100))"
    by (simp add: e entry_of_row_def s sql_win_pct_def)
  show "\<bar>entry_win_pct e - 100 * of_int (entry_wins e) / of_int (entry_fights e)\<bar>
          \<le> 1 / 20 + 1 / 10 ^ 12"
    if b: "stored db \<and> entry_fights e \<le> 2 ^ 53"
  proof -
    have st: "0 \<le> row_wins (fst h)" "row_wins (fst h) \<le> row_fights (fst h)"
      using stored_stats [of db] b m by blast+
    have small: "row_fights (fst h) \<le> 2 ^ 53"
      using b by (simp add: e entry_of_row_def)
    have "entry_win_pct e =
        py_round1 (binary64 (binary64 (of_int (row_wins (fst h)) / of_int (row_fights (fst h))) * 100))"
      using sql_win_pct_small [OF st small] by (simp add: e entry_of_row_def s)
    moreover have "\<bar>py_round1 (binary64 (binary64 (of_int (row_wins (fst h))
        / of_int (row_fights (fst h))) * 100))
        - 100 * (of_int (row_wins (fst h)) / of_int (row_fights (fst h)))\<bar> \<le> 1 / 20 + 1 / 10 ^ 12"
      using ratio_bounds [OF st f] by (rule percent_error)
    ultimately show ?thesis
      by (simp add: e entry_of_row_def)
  qed
next
  assume f': "0 < fights"
  show v: "compute_win_pct wins fights =
        py_round1 (binary64 (binary64 (of_int wins / of_int fights) * 100))"
    using f' by (simp add: compute_win_pct_def)
  show "\<bar>compute_win_pct wins fights - 100 * of_int wins / of_int fights\<bar>
          \<le> 1 / 20 + 1 / 10 ^ 12"
    if c: "0 \<le> wins \<and> wins \<le> fights"
  proof -
    have "\<bar>py_round1 (binary64 (binary64 (of_int wins / of_int fights) * 100))
        - 100 * (of_int wins / of_int fights)\<bar> \<le> 1 / 20 + 1 / 10 ^ 12"
      using c f' by (intro percent_error ratio_bounds) simp_all
    then show ?thesis by (simp add: v)
  qed
qed

theorem leaderboard_win_pct_formula_witness:
  "''wins'' \<in> {''wins'', ''win_pct''} \<and> stored tie_store \<and>
   fst (get_leaderboard tie_store ''wins'') = Inr [tie_entry] \<and>
   entry_wins tie_entry = 23 \<and> entry_fights tie_entry = 80 \<and>
   entry_win_pct tie_entry = binary64 (287 / 10) \<and>
   entry_win_pct tie_entry =
     py_round1 (binary64 (binary64 (binary64 (of_int (entry_wins tie_entry))
       / binary64 (of_int (entry_fights tie_entry))) * 100)) \<and>
   \<bar>entry_win_pct tie_entry - 100 * of_int (entry_wins tie_entry) / of_int (entry_fights tie_entry)\<bar>
     \<le> 1 / 20 + 1 / 10 ^ 12 \<and>
   compute_win_pct 1 2 = py_round1 (binary64 (binary64 (of_int 1 / of_int 2) * 100)) \<and>
   \<bar>compute_win_pct 1 2 - 100 * of_int 1 / of_int 2\<bar> \<le> 1 / 20 + 1 / 10 ^ 12 \<and>
   compute_win_pct 1 2 = 50"
proof -
  have m: "''wins'' \<in> {''wins'', ''win_pct''}" by simp
  have a: "fst (get_leaderboard tie_store ''wins'') = Inr [tie_entry]" by code_simp
  have c: "compute_win_pct 1 2 = 50" by code_simp
  have k: "tie_entry \<in> set [tie_entry]" by simp
  have p: "(0::int) < 2" "(0::int) \<le> 1 \<and> (1::int) \<le> 2" by simp_all
  have sm: "entry_fights tie_entry \<le> 2 ^ 53" by (simp add: tie_entry_def)
  have v: "entry_wins tie_entry = 23" "entry_fights tie_entry = 80"
    "entry_win_pct tie_entry = binary64 (287 / 10)"
    by (simp_all add: tie_entry_def)
  from leaderboard_win_pct_formula [OF m, of tie_store "[tie_entry]" tie_entry 2 1]
    a k stored_tie_store sm p
  have "entry_win_pct tie_entry =
     py_round1 (binary64 (binary64 (binary64 (of_int (entry_wins tie_entry))
       / binary64 (of_int (entry_fights tie_entry))) * 100)) \<and>
   \<bar>entry_win_pct tie_entry - 100 * of_int (entry_wins tie_entry) / of_int (entry_fights tie_entry)\<bar>
     \<le> 1 / 20 + 1 / 10 ^ 12 \<and>
   compute_win_pct 1 2 = py_round1 (binary64 (binary64 (of_int 1 / of_int 2) * 100)) \<and>
   \<bar>compute_win_pct 1 2 - 100 * of_int 1 / of_int 2\<bar> \<le> 1 / 20 + 1 / 10 ^ 12"
    by blast
  with m stored_tie_store a c v show ?thesis by blast
qed

section \<open>Creating boxers\<close>

lemma create_boxer_valid:
  assumes "125 \<le> weight" "0 < height" "0 < reach" "18 \<le> age" "age \<le> 40"
  shows "create_boxer ins db name weight height reach age =
    (let db1 = execute (Select_1_where_name name) (connect db) in
     if find (\<lambda>r. row_name r = name) (boxers db1) \<noteq> None
     then (Inl (ValueError (Already_exists name)), db1)
     else
       (case ins of
          Inserted \<Rightarrow>
            (Inr (), commit (execute (Insert_boxer name weight height reach age) db1))
        | Raises_IntegrityError \<Rightarrow>
            (Inl (ValueError (Already_exists name)),
             execute_refused (Insert_boxer name weight height reach age) db1)
        | Raises_other_sqlite3_Error \<Rightarrow>
            (Inl DatabaseError,
             execute_refused (Insert_boxer name weight height reach age) db1)))"
  using assms by (simp add: create_boxer_def)

text \<open>
  C6, as stated, fails: the claim is that \<^verbatim>\<open>create\<close> rejects an empty name. The sqlite
  variant's \<^verbatim>\<open>create_boxer\<close> has no check of the name; with valid numbers the empty name
  is inserted.
\<close>

theorem create_boxer_empty_name_counterexample:
  "stored empty_database \<and>
   fst (create_boxer Inserted empty_database [] 150 70 (41 / 2) 25) = Inr () \<and>
   \<not> isl (fst (create_boxer Inserted empty_database [] 150 70 (41 / 2) 25)) \<and>
   map row_name (boxers (snd (create_boxer Inserted empty_database [] 150 70 (41 / 2) 25))) = [[]] \<and>
   strip [] = []"
  by (rule conjI [OF stored_empty]) code_simp

text \<open>
  C6, amended. \<^verbatim>\<open>create_boxer\<close> and the constructor \<^verbatim>\<open>Boxers.__init__\<close> check, in this
  order, \<open>weight \<ge> 125\<close>, \<open>height > 0\<close>, \<open>reach > 0\<close> and \<open>18 \<le> age \<le> 40\<close>, and raise the
  ValueError (a ValidationError) of the first check that fails, leaving the store as it
  was; so weight 124, height 0, reach -1, age 17 and age 41 are rejected. Once the four
  numbers are valid, \<^verbatim>\<open>create_boxer\<close> raises no validation error, whatever the name.
\<close>

theorem create_boxer_validation_order:
  "(weight < 125 \<longrightarrow>
      create_boxer ins db name weight height reach age =
        (Inl (ValueError (Invalid_weight weight)), db) \<and>
      Boxers_init self_name name weight height reach age = Inl (ValueError (Invalid_weight weight)) \<and>
      kind_of (ValueError (Invalid_weight weight)) = ValidationError) \<and>
   (125 \<le> weight \<and> height \<le> 0 \<longrightarrow>
      create_boxer ins db name weight height reach age =
        (Inl (ValueError (Invalid_height height)), db) \<and>
      Boxers_init self_name name weight height reach age = Inl (ValueError (Invalid_height height)) \<and>
      kind_of (ValueError (Invalid_height height)) = ValidationError) \<and>
   (125 \<le> weight \<and> 0 < height \<and> reach \<le> 0 \<longrightarrow>
      create_boxer ins db name weight height reach age =
        (Inl (ValueError (Invalid_reach reach)), db) \<and>
      Boxers_init self_name name weight height reach age = Inl (ValueError (Invalid_reach reach)) \<and>
      kind_of (ValueError (Invalid_reach reach)) = ValidationError) \<and>
   (125 \<le> weight \<and> 0 < height \<and> 0 < reach \<and> (age < 18 \<or> 40 < age) \<longrightarrow>
      create_boxer ins db name weight height reach age =
        (Inl (ValueError (Invalid_age age)), db) \<and>
      Boxers_init self_name name weight height reach age = Inl (ValueError (Invalid_age age)) \<and>
      kind_of (ValueError (Invalid_age age)) = ValidationError) \<and>
   (125 \<le> weight \<and> 0 < height \<and> 0 < reach \<and> 18 \<le> age \<and> age \<le> 40 \<longrightarrow>
      (\<forall>e. fst (create_boxer ins db name weight height reach age) = Inl e \<longrightarrow>
         kind_of e \<noteq> ValidationError))"
proof -
  have "kind_of e \<noteq> ValidationError"
    if v: "125 \<le> weight" "0 < height" "0 < reach" "18 \<le> age" "age \<le> 40"
      and e: "fst (create_boxer ins db name weight height reach age) = Inl e" for e
    using e unfolding create_boxer_valid [OF v]
    by (cases ins) (auto simp: Let_def split: if_splits)
  then show ?thesis
    by (auto simp: create_boxer_def Boxers_init_def)
qed

theorem create_boxer_validation_order_witness:
  "fst (create_boxer Inserted example_database ''Joe'' 124 70 (41 / 2) 25) =
     Inl (ValueError (Invalid_weight 124)) \<and>
   fst (create_boxer Inserted example_database ''Joe'' 124 0 (- 1) 17) =
     Inl (ValueError (Invalid_weight 124)) \<and>
   fst (create_boxer Inserted example_database ''Joe'' 150 0 (- 1) 17) =
     Inl (ValueError (Invalid_height 0)) \<and>
   fst (create_boxer Inserted example_database ''Joe'' 150 70 (- 1) 17) =
     Inl (ValueError (Invalid_reach (- 1))) \<and>
   fst (create_boxer Inserted example_database ''Joe'' 150 70 (41 / 2) 17) =
     Inl (ValueError (Invalid_age 17)) \<and>
   fst (create_boxer Inserted example_database ''Joe'' 150 70 (41 / 2) 41) =
     Inl (ValueError (Invalid_age 41)) \<and>
   Boxers_init None ''Joe'' 150 70 (41 / 2) 41 = Inl (ValueError (Invalid_age 41)) \<and>
   fst (create_boxer Inserted example_database ''Joe'' 150 70 (41 / 2) 40) = Inr () \<and>
   fst (create_boxer Inserted example_database ''Ali'' 150 70 (41 / 2) 18) =
     Inl (ValueError (Already_exists ''Ali''))"
proof -
  have a: "fst (create_boxer Inserted example_database ''Joe'' 150 70 (41 / 2) 40) = Inr ()"
    by code_simp
  have b: "fst (create_boxer Inserted example_database ''Ali'' 150 70 (41 / 2) 18) =
     Inl (ValueError (Already_exists ''Ali''))"
    by code_simp
  show ?thesis
    using create_boxer_validation_order [of 124 Inserted example_database "''Joe''" 70 "41 / 2" 25 None]
      create_boxer_validation_order [of 124 Inserted example_database "''Joe''" 0 "- 1" 17 None]
      create_boxer_validation_order [of 150 Inserted example_database "''Joe''" 0 "- 1" 17 None]
      create_boxer_validation_order [of 150 Inserted example_database "''Joe''" 70 "- 1" 17 None]
      create_boxer_validation_order [of 150 Inserted example_database "''Joe''" 70 "41 / 2" 17 None]
      create_boxer_validation_order [of 150 Inserted example_database "''Joe''" 70 "41 / 2" 41 None]
      a b
    by simp
qed

text \<open>
  C7, as stated, fails: the claim is that a name equal to a stored name after trimming is a
  conflict. \<^verbatim>\<open>create_boxer\<close> compares the name as given: with \<^verbatim>\<open>'Ali'\<close> stored,
  \<^verbatim>\<open>'Ali '\<close> is inserted as a second boxer.
\<close>

theorem create_boxer_padded_name_counterexample:
  "stored ali_store \<and>
   map row_name (boxers ali_store) = [''Ali''] \<and> strip ''Ali '' = ''Ali'' \<and>
   fst (create_boxer Inserted ali_store ''Ali '' 150 70 (41 / 2) 25) = Inr () \<and>
   \<not> isl (fst (create_boxer Inserted ali_store ''Ali '' 150 70 (41 / 2) 25)) \<and>
   map row_name (boxers (snd (create_boxer Inserted ali_store ''Ali '' 150 70 (41 / 2) 25))) =
     [''Ali'', ''Ali '']"
  by (rule conjI [OF stored_ali_store]) code_simp

text \<open>
  C7, amended. With valid numbers: when a row has exactly the given name,
  \<^verbatim>\<open>create_boxer\<close> raises the already-exists ValueError (a ConflictError) after the lookup
  and before any insert, and the table is as before; when no row has it and the store
  answers the insert with an IntegrityError, the same ValueError is raised and the table
  is as before; when the store accepts the insert, the new row is appended with 0 fights
  and 0 wins.
\<close>

theorem create_boxer_duplicate_name:
  assumes "125 \<le> weight" "0 < height" "0 < reach" "18 \<le> age" "age \<le> 40"
  shows "((\<exists>r\<in>set (boxers db). row_name r = name) \<longrightarrow>
      create_boxer ins db name weight height reach age =
        (Inl (ValueError (Already_exists name)),
         db\<lparr>calls := calls db @ [Connect, Execute (Select_1_where_name name)]\<rparr>)) \<and>
    kind_of (ValueError (Already_exists name)) = ConflictError \<and>
    ((\<forall>r\<in>set (boxers db). row_name r \<noteq> name) \<longrightarrow>
      fst (create_boxer Raises_IntegrityError db name weight height reach age) =
        Inl (ValueError (Already_exists name)) \<and>
      boxers (snd (create_boxer Raises_IntegrityError db name weight height reach age)) = boxers db \<and>
      fst (create_boxer Inserted db name weight height reach age) = Inr () \<and>
      boxers (snd (create_boxer Inserted db name weight height reach age)) =
        boxers db @ [\<lparr>row_id = new_id (boxers db), row_name = name, row_weight = weight,
          row_height = height, row_reach = reach, row_age = age, row_fights = 0, row_wins = 0\<rparr>])"
proof -
  have found: "find (\<lambda>r. row_name r = name) (boxers db) \<noteq> None"
    if "\<exists>r\<in>set (boxers db). row_name r = name"
    using that by (simp add: find_row_None)
  have missing: "find (\<lambda>r. row_name r = name) (boxers db) = None"
    if "\<forall>r\<in>set (boxers db). row_name r \<noteq> name"
    using that by (simp add: find_row_None)
  have db1: "execute (Select_1_where_name name) (connect db) =
      db\<lparr>calls := calls db @ [Connect, Execute (Select_1_where_name name)]\<rparr>"
    by (simp add: execute_def connect_def)
  have taken: "create_boxer ins db name weight height reach age =
        (Inl (ValueError (Already_exists name)),
         db\<lparr>calls := calls db @ [Connect, Execute (Select_1_where_name name)]\<rparr>)"
    if "\<exists>r\<in>set (boxers db). row_name r = name"
    unfolding create_boxer_valid [OF assms] db1
    using found [OF that] by (simp add: Let_def)
  have free: "fst (create_boxer Raises_IntegrityError db name weight height reach age) =
        Inl (ValueError (Already_exists name)) \<and>
      boxers (snd (create_boxer Raises_IntegrityError db name weight height reach age)) = boxers db \<and>
      fst (create_boxer Inserted db name weight height reach age) = Inr () \<and>
      boxers (snd (create_boxer Inserted db name weight height reach age)) =
        boxers db @ [\<lparr>row_id = new_id (boxers db), row_name = name, row_weight = weight,
          row_height = height, row_reach = reach, row_age = age, row_fights = 0, row_wins = 0\<rparr>]"
    if "\<forall>r\<in>set (boxers db). row_name r \<noteq> name"
    unfolding create_boxer_valid [OF assms] db1
    using missing [OF that] by (simp add: Let_def execute_def execute_refused_def commit_def)
  from taken free show ?thesis by simp
qed

theorem create_boxer_duplicate_name_witness:
  "(125::rat) \<le> 150 \<and> (0::rat) < 70 \<and> (0::rat) < 41 / 2 \<and> (18::int) \<le> 25 \<and> (25::int) \<le> 40 \<and>
   map row_name (boxers example_database) = [''Ali''] \<and>
   create_boxer Inserted example_database ''Ali'' 150 70 (41 / 2) 25 =
     (Inl (ValueError (Already_exists ''Ali'')),
      example_database\<lparr>calls := [Connect, Execute (Select_1_where_name ''Ali'')]\<rparr>) \<and>
   fst (create_boxer Raises_IntegrityError example_database ''Joe'' 150 70 (41 / 2) 25) =
     Inl (ValueError (Already_exists ''Joe'')) \<and>
   map row_name (boxers (snd (create_boxer Raises_IntegrityError example_database ''Joe'' 150 70 (41 / 2) 25))) =
     [''Ali''] \<and>
   map row_name (boxers (snd (create_boxer Inserted example_database ''Joe'' 150 70 (41 / 2) 25))) =
     [''Ali'', ''Joe'']"
  using create_boxer_duplicate_name [of 150 70 "41 / 2" 25 example_database "''Ali''" Inserted]
    create_boxer_duplicate_name [of 150 70 "41 / 2" 25 example_database "''Joe''" Inserted]
  by (simp add: example_database_def example_row_def)

section \<open>Looking boxers up\<close>

text \<open>
  C9, as stated, fails: the claim is that the lookup by name trims its input. The sqlite
  variant's \<^verbatim>\<open>get_boxer_by_name\<close> compares the name as given: with \<^verbatim>\<open>'Ali'\<close> stored, the
  lookup of \<^verbatim>\<open>' Ali '\<close> raises the not-found error.
\<close>

theorem get_boxer_by_name_padded_counterexample:
  "stored ali_store \<and>
   map row_name (boxers ali_store) = [''Ali''] \<and> strip '' Ali '' = ''Ali'' \<and>
   fst (get_boxer_by_name ali_store '' Ali '') = Inl (ValueError (Not_found_name '' Ali '')) \<and>
   isl (fst (get_boxer_by_name ali_store '' Ali '')) \<and>
   map_sum id Boxer_name (fst (get_boxer_by_name ali_store ''Ali'')) = Inr ''Ali''"
  by (rule conjI [OF stored_ali_store]) code_simp

lemma find_Some_row:
  assumes "\<exists>r\<in>set rs. P r"
  shows "\<exists>r\<in>set rs. P r \<and> find P rs = Some r"
proof -
  from assms have "find P rs \<noteq> None" by (simp add: find_row_None)
  then obtain r where r: "find P rs = Some r" by auto
  then have "P r \<and> r \<in> set rs"
    by (auto simp: find_Some_iff)
  with r show ?thesis by blast
qed

text \<open>
  C9, amended. \<^verbatim>\<open>get_boxer_by_id\<close> raises the not-found ValueError (a NotFoundError) when
  no row has the id, and \<^verbatim>\<open>get_boxer_by_name\<close> raises it when no row has exactly the name
  given (the name is compared as it is, without trimming), and returns a boxer of that
  name when a row of a stored set has it.
\<close>

theorem get_boxer_not_found:
  "((\<forall>r\<in>set (boxers db). row_id r \<noteq> boxer_id) \<longrightarrow>
      fst (get_boxer_by_id db boxer_id) = Inl (ValueError (Not_found_id boxer_id))) \<and>
   ((\<forall>r\<in>set (boxers db). row_name r \<noteq> boxer_name) \<longrightarrow>
      fst (get_boxer_by_name db boxer_name) = Inl (ValueError (Not_found_name boxer_name))) \<and>
   (stored db \<and> (\<exists>r\<in>set (boxers db). row_name r = boxer_name) \<longrightarrow>
      (\<exists>boxer. fst (get_boxer_by_name db boxer_name) = Inr boxer \<and> Boxer_name boxer = boxer_name)) \<and>
   kind_of (ValueError (Not_found_id boxer_id)) = NotFoundError \<and>
   kind_of (ValueError (Not_found_name boxer_name)) = NotFoundError"
proof -
  have a: "fst (get_boxer_by_id db boxer_id) = Inl (ValueError (Not_found_id boxer_id))"
    if "\<forall>r\<in>set (boxers db). row_id r \<noteq> boxer_id"
  proof -
    from that have "find (\<lambda>r. row_id r = boxer_id) (boxers db) = None"
      by (simp add: find_row_None)
    then show ?thesis
      by (simp add: get_boxer_by_id_def Let_def execute_def connect_def)
  qed
  have b: "fst (get_boxer_by_name db boxer_name) = Inl (ValueError (Not_found_name boxer_name))"
    if "\<forall>r\<in>set (boxers db). row_name r \<noteq> boxer_name"
  proof -
    from that have "find (\<lambda>r. row_name r = boxer_name) (boxers db) = None"
      by (simp add: find_row_None)
    then show ?thesis
      by (simp add: get_boxer_by_name_def Let_def execute_def connect_def)
  qed
  have c: "\<exists>boxer. fst (get_boxer_by_name db boxer_name) = Inr boxer \<and> Boxer_name boxer = boxer_name"
    if s: "stored db" and ex: "\<exists>r\<in>set (boxers db). row_name r = boxer_name"
  proof -
    from find_Some_row [OF ex] obtain r where r: "r \<in> set (boxers db)" "row_name r = boxer_name"
      and f: "find (\<lambda>r. row_name r = boxer_name) (boxers db) = Some r" by blast
    have "125 \<le> row_weight r" using stored_weights [OF s] r(1) by blast
    then obtain wc where "get_weight_class (row_weight r) = Inr wc"
      using get_weight_class_valid by blast
    then show ?thesis
      using r(2) f by (simp add: get_boxer_by_name_def Let_def execute_def connect_def Boxer_of_row_def)
  qed
  from a b c show ?thesis by simp
qed

theorem get_boxer_not_found_witness:
  "stored ali_store \<and>
   map row_name (boxers ali_store) = [''Ali''] \<and>
   fst (get_boxer_by_id ali_store 999) =
     Inl (ValueError (Not_found_id 999)) \<and>
   fst (get_boxer_by_name ali_store ''Joe'') =
     Inl (ValueError (Not_found_name ''Joe'')) \<and>
   map_sum id Boxer_name
     (fst (get_boxer_by_name ali_store ''Ali'')) =
     Inr ''Ali''"
proof -
  have s: "stored ali_store" by (rule stored_ali_store)
  have bx: "boxers ali_store = [example_row]" by code_simp
  from get_boxer_not_found [of ali_store 999 "''Joe''"]
    get_boxer_not_found [of ali_store 999 "''Ali''"] s
  show ?thesis
    by (auto simp: bx example_row_def)
qed

section \<open>Further properties\<close>

text \<open>
  X1. \<^verbatim>\<open>delete_boxer\<close> raises the not-found ValueError for an id that no row has and leaves
  the table as it is; for an id that a row has it removes the rows with that id, and a
  second call with the same id raises the not-found error.
\<close>

theorem delete_boxer_twice:
  "((\<forall>r\<in>set (boxers db). row_id r \<noteq> boxer_id) \<longrightarrow>
      fst (delete_boxer db boxer_id) = Inl (ValueError (Not_found_id boxer_id)) \<and>
      boxers (snd (delete_boxer db boxer_id)) = boxers db) \<and>
   ((\<exists>r\<in>set (boxers db). row_id r = boxer_id) \<longrightarrow>
      fst (delete_boxer db boxer_id) = Inr () \<and>
      boxers (snd (delete_boxer db boxer_id)) = filter (\<lambda>r. row_id r \<noteq> boxer_id) (boxers db) \<and>
      fst (delete_boxer (snd (delete_boxer db boxer_id)) boxer_id) =
        Inl (ValueError (Not_found_id boxer_id))) \<and>
   kind_of (ValueError (Not_found_id boxer_id)) = NotFoundError"
proof -
  have a: "fst (delete_boxer d boxer_id) = Inl (ValueError (Not_found_id boxer_id)) \<and>
      boxers (snd (delete_boxer d boxer_id)) = boxers d"
    if "\<forall>r\<in>set (boxers d). row_id r \<noteq> boxer_id" for d
  proof -
    from that have "find (\<lambda>r. row_id r = boxer_id) (boxers d) = None"
      by (simp add: find_row_None)
    then show ?thesis
      by (simp add: delete_boxer_def Let_def execute_def connect_def)
  qed
  have b: "fst (delete_boxer db boxer_id) = Inr () \<and>
      boxers (snd (delete_boxer db boxer_id)) = filter (\<lambda>r. row_id r \<noteq> boxer_id) (boxers db)"
    if "\<exists>r\<in>set (boxers db). row_id r = boxer_id"
  proof -
    from that have "find (\<lambda>r. row_id r = boxer_id) (boxers db) \<noteq> None"
      by (simp add: find_row_None)
    then show ?thesis
      by (auto simp: delete_boxer_def Let_def execute_def connect_def commit_def)
  qed
  have c: "fst (delete_boxer (snd (delete_boxer db boxer_id)) boxer_id) =
        Inl (ValueError (Not_found_id boxer_id))"
    if ex: "\<exists>r\<in>set (boxers db). row_id r = boxer_id"
  proof -
    have "\<forall>r\<in>set (boxers (snd (delete_boxer db boxer_id))). row_id r \<noteq> boxer_id"
      using b [OF ex] by simp
    then show ?thesis using a by blast
  qed
  from a [of db] b c show ?thesis by simp
qed

theorem delete_boxer_twice_witness:
  "map row_id (boxers ali_store) = [1] \<and>
   fst (delete_boxer ali_store 999) = Inl (ValueError (Not_found_id 999)) \<and>
   fst (delete_boxer ali_store 1) = Inr () \<and>
   boxers (snd (delete_boxer ali_store 1)) = [] \<and>
   fst (delete_boxer (snd (delete_boxer ali_store 1)) 1) = Inl (ValueError (Not_found_id 1))"
proof -
  have bx: "boxers ali_store = [example_row]" by code_simp
  from delete_boxer_twice [of ali_store 999] delete_boxer_twice [of ali_store 1]
  show ?thesis by (simp add: bx example_row_def)
qed

text \<open>
  X2. With a sort key other than \<^verbatim>\<open>'wins'\<close> and \<^verbatim>\<open>'win_pct'\<close> both \<^verbatim>\<open>get_leaderboard\<close>
  functions raise the ValueError for the key, a ValidationError; the sqlite variant does so
  without a call on the connection.
\<close>

theorem get_leaderboard_rejects_unknown_sort_key:
  assumes "sort_by \<notin> {''wins'', ''win_pct''}"
  shows "get_leaderboard db sort_by = (Inl (ValueError (Invalid_sort_by sort_by)), db) \<and>
    Boxers_get_leaderboard table sort_by = Inl (ValueError (Invalid_sort_by sort_by)) \<and>
    kind_of (ValueError (Invalid_sort_by sort_by)) = ValidationError"
  using assms by (simp add: get_leaderboard_def Boxers_get_leaderboard_def)

theorem get_leaderboard_rejects_unknown_sort_key_witness:
  "''age'' \<notin> {''wins'', ''win_pct''} \<and>
   get_leaderboard example_store ''age'' = (Inl (ValueError (Invalid_sort_by ''age'')), example_store) \<and>
   Boxers_get_leaderboard [example_Boxers] ''age'' = Inl (ValueError (Invalid_sort_by ''age''))"
  using get_leaderboard_rejects_unknown_sort_key [of "''age''" example_store "[example_Boxers]"]
  by simp

text \<open>
  X3. \<^verbatim>\<open>create_boxer\<close> writes nothing when it fails: whenever it raises, the table is as
  before; when it returns, the numbers were valid, no row had the name, and exactly one
  row with the given name and numbers has been appended.
\<close>

theorem create_boxer_no_partial_write:
  "(isl (fst (create_boxer ins db name weight height reach age)) \<longrightarrow>
      boxers (snd (create_boxer ins db name weight height reach age)) = boxers db) \<and>
   (\<not> isl (fst (create_boxer ins db name weight height reach age)) \<longrightarrow>
      (\<exists>r. boxers (snd (create_boxer ins db name weight height reach age)) = boxers db @ [r] \<and>
         row_name r = name \<and> row_weight r = weight \<and> row_height r = height \<and>
         row_reach r = reach \<and> row_age r = age) \<and>
      (\<forall>r\<in>set (boxers db). row_name r \<noteq> name) \<and>
      125 \<le> weight \<and> 0 < height \<and> 0 < reach \<and> 18 \<le> age \<and> age \<le> 40)"
  by (cases ins)
    (auto simp: create_boxer_def Let_def execute_def execute_refused_def connect_def commit_def
      find_row_None)

theorem create_boxer_no_partial_write_witness:
  "isl (fst (create_boxer Inserted ali_store ''Ali'' 150 70 (41 / 2) 25)) \<and>
   boxers (snd (create_boxer Inserted ali_store ''Ali'' 150 70 (41 / 2) 25)) = boxers ali_store \<and>
   \<not> isl (fst (create_boxer Inserted ali_store ''Joe'' 150 70 (41 / 2) 25)) \<and>
   map row_name (boxers (snd (create_boxer Inserted ali_store ''Joe'' 150 70 (41 / 2) 25))) =
     [''Ali'', ''Joe'']"
proof -
  have a: "isl (fst (create_boxer Inserted ali_store ''Ali'' 150 70 (41 / 2) 25))" by code_simp
  have b: "\<not> isl (fst (create_boxer Inserted ali_store ''Joe'' 150 70 (41 / 2) 25))" by code_simp
  have c: "map row_name (boxers ali_store) = [''Ali'']" by code_simp
  from create_boxer_no_partial_write [of Inserted ali_store "''Ali''" 150 70 "41 / 2" 25]
    create_boxer_no_partial_write [of Inserted ali_store "''Joe''" 150 70 "41 / 2" 25] a b c
  show ?thesis by auto
qed

text \<open>
  X4. \<^verbatim>\<open>Boxers.update_stats\<close> with a result of \<^verbatim>\<open>'win'\<close> or \<^verbatim>\<open>'loss'\<close> raises
  \<^verbatim>\<open>AttributeError\<close>: the class declares no column \<^verbatim>\<open>fights\<close>, so \<^verbatim>\<open>self.fights += 1\<close>
  fails on reading the attribute. The object and the session are as before; no counter is
  changed and nothing is committed. The sqlite variant counts such a result.
\<close>

theorem Boxers_update_stats_raises_AttributeError:
  assumes "result \<in> {''win'', ''loss''}"
  shows "Boxers_update_stats (self, c) result = (Inl AttributeError, (self, c)) \<and>
    fst (Boxers_update_stats (self, c) result) \<noteq> Inr () \<and>
    Boxers_wins (fst (snd (Boxers_update_stats (self, c) result))) = Boxers_wins self \<and>
    kind_of AttributeError = ProgrammingError"
  using assms by (auto simp: Boxers_update_stats_def)

theorem Boxers_update_stats_raises_AttributeError_witness:
  "''win'' \<in> {''win'', ''loss''} \<and>
   Boxers_update_stats (example_Boxers, 0) ''win'' = (Inl AttributeError, (example_Boxers, 0)) \<and>
   Boxers_wins (fst (snd (Boxers_update_stats (example_Boxers, 0) ''win''))) = 0 \<and>
   fst (update_boxer_stats example_database 1 ''win'') = Inr ()"
proof -
  have "fst (update_boxer_stats example_database 1 ''win'') = Inr ()" by code_simp
  with Boxers_update_stats_raises_AttributeError [of "''win''" example_Boxers 0]
  show ?thesis by (simp add: example_Boxers_def)
qed

text \<open>
  X5. \<^verbatim>\<open>Boxers.create_boxer\<close> never returns normally, whatever the constructor finds in
  \<^verbatim>\<open>self.name\<close>; on a new object, whose name is \<^verbatim>\<open>None\<close>, the constructor itself rejects
  every name. The statements on creation are therefore about the sqlite variant.
\<close>

theorem Boxers_create_boxer_never_returns:
  "isl (Boxers_create_boxer self_name name weight height reach age) \<and>
   isl (Boxers_init None name weight height reach age)"
  by (simp add: Boxers_create_boxer_def Boxers_init_def split: sum.split)

lemma boxers_create_boxer_fields:
  "boxers (snd (create_boxer ins db name weight height reach age)) = boxers db \<or>
   (125 \<le> weight \<and> 0 < height \<and> 0 < reach \<and> 18 \<le> age \<and> age \<le> 40 \<and>
    (\<exists>r. row_weight r = weight \<and> row_height r = height \<and> row_reach r = reach \<and>
      row_age r = age \<and> row_fights r = 0 \<and> row_wins r = 0 \<and>
      boxers (snd (create_boxer ins db name weight height reach age)) = boxers db @ [r]))"
  by (cases ins)
    (auto simp: create_boxer_def Let_def execute_def execute_refused_def connect_def commit_def)

lemma valid_row_bump: "valid_row r \<Longrightarrow> valid_row (bump boxer_id result r)"
  by (simp add: valid_row_def bump_def)

text \<open>
  X6. Every row of a stored set of boxers satisfies the constraints of the data model:
  \<open>weight \<ge> 125\<close>, \<open>height > 0\<close>, \<open>reach > 0\<close>, \<open>18 \<le> age \<le> 40\<close> and \<open>0 \<le> wins \<le> fights\<close>.
\<close>

theorem stored_rows_valid:
  assumes "stored db"
  shows "list_all valid_row (boxers db)"
  using assms
proof (induction rule: stored.induct)
  case stored_empty
  then show ?case by (simp add: empty_database_def)
next
  case (stored_create db ins name weight height reach age)
  then show ?case
    using boxers_create_boxer_fields [of ins db name weight height reach age]
    by (auto simp: valid_row_def list_all_iff)
next
  case (stored_delete db boxer_id)
  then show ?case
    using boxers_delete_boxer [of db boxer_id] by (auto simp: list_all_iff)
next
  case (stored_update db boxer_id result)
  then show ?case
    using valid_row_bump by (auto simp: boxers_update_boxer_stats list_all_iff)
next
  case (stored_by_id db boxer_id)
  then show ?case by (simp add: boxers_get_boxer_by_id)
next
  case (stored_by_name db boxer_name)
  then show ?case by (simp add: boxers_get_boxer_by_name)
next
  case (stored_leaderboard db sort_by)
  then show ?case by (simp add: boxers_get_leaderboard)
qed

theorem stored_rows_valid_witness:
  "stored example_store \<and> list_all valid_row (boxers example_store) \<and>
   map row_wins (boxers example_store) = [1, 2, 0]"
proof -
  have "map row_wins (boxers example_store) = [1, 2, 0]" by code_simp
  with stored_rows_valid [OF stored_example_store] stored_example_store show ?thesis by simp
qed

text \<open>
  X7. \<^verbatim>\<open>Boxers.get_leaderboard\<close> with the sort key \<^verbatim>\<open>'wins'\<close> or \<^verbatim>\<open>'win_pct'\<close> raises
  \<^verbatim>\<open>AttributeError\<close> on every table, the empty one too: its query filters on
  \<^verbatim>\<open>Boxers.fights\<close>, which the class does not declare. It returns no list.
\<close>

theorem Boxers_get_leaderboard_raises_AttributeError:
  assumes "sort_by \<in> {''wins'', ''win_pct''}"
  shows "Boxers_get_leaderboard table sort_by = Inl AttributeError \<and>
    isl (Boxers_get_leaderboard table sort_by) \<and>
    kind_of AttributeError = ProgrammingError"
  using assms by (auto simp: Boxers_get_leaderboard_def)

theorem Boxers_get_leaderboard_raises_AttributeError_witness:
  "''wins'' \<in> {''wins'', ''win_pct''} \<and>
   Boxers_get_leaderboard [] ''wins'' = Inl AttributeError \<and>
   Boxers_get_leaderboard [example_Boxers] ''win_pct'' = Inl AttributeError \<and>
   fst (get_leaderboard empty_database ''wins'') = Inr []"
proof -
  have "fst (get_leaderboard empty_database ''wins'') = Inr []" by code_simp
  with Boxers_get_leaderboard_raises_AttributeError [of "''wins''" "[]"]
    Boxers_get_leaderboard_raises_AttributeError [of "''win_pct''" "[example_Boxers]"]
  show ?thesis by simp
qed

text \<open>
  X8. The lookups of the SQLAlchemy variant: when no object has the id, or none has the
  stripped name, \<^verbatim>\<open>Boxers.get_boxer_by_id\<close> and \<^verbatim>\<open>Boxers.get_boxer_by_name\<close> raise
  \<^verbatim>\<open>NameError\<close>, not the not-found ValueError, because their handler names the class
  \<^verbatim>\<open>SQLAlchemyError\<close> that the module does not import. When an object has the stripped name,
  the lookup by name returns an object of that name.
\<close>

theorem Boxers_lookup_miss_raises_NameError:
  "((\<forall>b\<in>set table. Boxers_id b \<noteq> boxer_id) \<longrightarrow>
      Boxers_get_boxer_by_id table boxer_id = Inl NameError) \<and>
   ((\<forall>b\<in>set table. Boxers_name b \<noteq> strip boxer_name) \<longrightarrow>
      Boxers_get_boxer_by_name table boxer_name = Inl NameError) \<and>
   ((\<exists>b\<in>set table. Boxers_name b = strip boxer_name) \<longrightarrow>
      (\<exists>boxer. Boxers_get_boxer_by_name table boxer_name = Inr boxer \<and>
         Boxers_name boxer = strip boxer_name)) \<and>
   Inl NameError \<noteq> (Inl (ValueError (Not_found_id boxer_id)) :: error + Boxers) \<and>
   kind_of NameError = ProgrammingError"
proof -
  have d: "Boxers_get_boxer_by_id table boxer_id = Inl NameError"
    if "\<forall>b\<in>set table. Boxers_id b \<noteq> boxer_id"
  proof -
    from that have "find (\<lambda>b. Boxers_id b = boxer_id) table = None"
      by (simp add: find_row_None)
    then show ?thesis by (simp add: Boxers_get_boxer_by_id_def)
  qed
  have e: "Boxers_get_boxer_by_name table boxer_name = Inl NameError"
    if "\<forall>b\<in>set table. Boxers_name b \<noteq> strip boxer_name"
  proof -
    from that have "find (\<lambda>b. Boxers_name b = strip boxer_name) table = None"
      by (simp add: find_row_None)
    then show ?thesis by (simp add: Boxers_get_boxer_by_name_def)
  qed
  have f: "\<exists>boxer. Boxers_get_boxer_by_name table boxer_name = Inr boxer \<and>
         Boxers_name boxer = strip boxer_name"
    if ex: "\<exists>b\<in>set table. Boxers_name b = strip boxer_name"
  proof -
    from find_Some_row [OF ex] obtain b where "Boxers_name b = strip boxer_name"
      and "find (\<lambda>b. Boxers_name b = strip boxer_name) table = Some b" by blast
    then show ?thesis by (simp add: Boxers_get_boxer_by_name_def)
  qed
  from d e f show ?thesis by simp
qed

theorem Boxers_lookup_miss_raises_NameError_witness:
  "map Boxers_id [example_Boxers] = [1] \<and> map Boxers_name [example_Boxers] = [''Ali''] \<and>
   Boxers_get_boxer_by_id [example_Boxers] 999 = Inl NameError \<and>
   Boxers_get_boxer_by_name [example_Boxers] ''Joe'' = Inl NameError \<and>
   Boxers_get_boxer_by_name [example_Boxers] '' Ali '' = Inr example_Boxers"
proof -
  have t: "strip '' Ali '' = ''Ali''" "strip ''Joe'' = ''Joe''" by code_simp+
  have x: "Boxers_get_boxer_by_name [example_Boxers] '' Ali '' = Inr example_Boxers" by code_simp
  from Boxers_lookup_miss_raises_NameError [of "[example_Boxers]" 999 "''Joe''"] x
  show ?thesis
    by (auto simp: t example_Boxers_def)
qed

end
